theory Spec2Isabelle
  imports Complex_Main "HOL-Library.Char_ord" "HOL-Library.List_Lexorder"
begin

section \<open>Data model\<close>

text \<open>
  The dashboard exists in two variants in the repository: the root variant (page source
  and the persisted store with a 30 second poll) and the variant under \<open>v1/\<close> (page
  source and a store with a 3 second poll that keeps the last serialization it has seen).
  The helper functions and the hook \<open>useOverflowTransition\<close> are the same text in both.
  JavaScript numbers are modelled by \<open>int\<close> where the source only ever holds integers
  (pixel heights of DOM nodes, page indices, counters, milliseconds of the clock) and by
  \<open>rat\<close> where fractions occur (seconds, scroll offsets); rounding of IEEE doubles is
  not modelled.
\<close>

datatype EventStatus = Upcoming | Ongoing | Completed

datatype TransitionStyle =
  Static | Fade | SlideUp | SlideLeft | VerticalAutoScroll | GentleContinuousScroll

text \<open>
  \<open>ScheduleEvent\<close>: the fields both variants have, then the root variant's record (with
  \<open>dateEnd\<close>) and the record of \<open>v1/\<close> (with \<open>createdAt\<close>). The field \<open>id\<close> is
  written \<open>event_id\<close>; \<open>details\<close> is optional.
\<close>

record ScheduleEvent_base =
  event_id :: string
  title :: string
  dateStarted :: string
  timeStart :: string
  timeEnd :: string
  details :: "string option"

record ScheduleEvent = ScheduleEvent_base +
  dateEnd :: string

record ScheduleEvent_v1 = ScheduleEvent_base +
  createdAt :: string

record StatusColors =
  upcoming :: string
  ongoing :: string
  completed :: string

text \<open>
  What \<open>new Date()\<close> gives the helpers: \<open>today\<close> is \<open>format(now, 'yyyy-MM-dd')\<close>,
  \<open>currentTime\<close> is \<open>format(now, 'HH:mm')\<close>, and \<open>msOfDay\<close> is the number of
  milliseconds since local midnight.
\<close>

record clock =
  today :: string
  currentTime :: string
  msOfDay :: int

section \<open>Event status\<close>

text \<open>
  \<open>getEventStatus\<close>: the comparisons of \<open>currentTime\<close> with the event's times are
  JavaScript string comparisons, that is the lexicographic order on the character codes.
\<close>

definition getEventStatus :: "clock \<Rightarrow> 'a ScheduleEvent_base_scheme \<Rightarrow> EventStatus" where
  "getEventStatus now event =
     (if dateStarted event \<noteq> today now then Upcoming
      else if currentTime now < timeStart event then Upcoming
      else if currentTime now \<ge> timeStart event \<and> currentTime now \<le> timeEnd event then Ongoing
      else Completed)"

text \<open>\<open>settings.statusColors[status]\<close>, as \<open>EventRow\<close> computes the colour of the dot.\<close>

fun statusColor :: "StatusColors \<Rightarrow> EventStatus \<Rightarrow> string" where
  "statusColor colors Upcoming = upcoming colors"
| "statusColor colors Ongoing = ongoing colors"
| "statusColor colors Completed = completed colors"

definition rowStatusColor :: "StatusColors \<Rightarrow> clock \<Rightarrow> 'a ScheduleEvent_base_scheme \<Rightarrow> string" where
  "rowStatusColor colors now event = statusColor colors (getEventStatus now event)"

section \<open>Speed tiers\<close>

text \<open>\<open>getTransitionSpeed\<close>: the duration of the enter animation, in seconds.\<close>

definition getTransitionSpeed :: "string \<Rightarrow> rat \<Rightarrow> rat" where
  "getTransitionSpeed speed customSeconds =
     (if speed = ''verySlow'' then 3 / 2
      else if speed = ''slow'' then 1
      else if speed = ''normal'' then 1 / 2
      else if speed = ''fast'' then 1 / 4
      else if speed = ''custom'' then customSeconds
      else 1 / 2)"

text \<open>\<open>getPageDisplayDuration\<close>: how long a page stays, in milliseconds.\<close>

definition getPageDisplayDuration :: "string \<Rightarrow> int" where
  "getPageDisplayDuration speed =
     (if speed = ''verySlow'' then 8000
      else if speed = ''slow'' then 5000
      else if speed = ''normal'' then 3000
      else if speed = ''fast'' then 1500
      else if speed = ''custom'' then 3000
      else 3000)"

text \<open>\<open>getScrollSpeed\<close>: pixels per second of the continuous scroll.\<close>

definition getScrollSpeed :: "string \<Rightarrow> rat" where
  "getScrollSpeed speed =
     (if speed = ''verySlow'' then 15
      else if speed = ''slow'' then 25
      else if speed = ''normal'' then 40
      else if speed = ''fast'' then 60
      else if speed = ''custom'' then 40
      else 40)"

text \<open>
  \<open>getTransitionVariants\<close>: the three keyframes of a row. A keyframe holds the opacity,
  the optional offsets \<open>x\<close> and \<open>y\<close>, and the optional \<open>transition.duration\<close>.
\<close>

record keyframe =
  kf_opacity :: rat
  kf_x :: "rat option"
  kf_y :: "rat option"
  kf_duration :: "rat option"

record variants =
  v_initial :: keyframe
  v_animate :: keyframe
  v_exit :: keyframe

fun getTransitionVariants :: "TransitionStyle \<Rightarrow> rat \<Rightarrow> variants" where
  "getTransitionVariants Fade speed =
     \<lparr>v_initial = \<lparr>kf_opacity = 0, kf_x = None, kf_y = None, kf_duration = None\<rparr>,
      v_animate = \<lparr>kf_opacity = 1, kf_x = None, kf_y = None, kf_duration = Some speed\<rparr>,
      v_exit = \<lparr>kf_opacity = 0, kf_x = None, kf_y = None, kf_duration = Some (speed / 2)\<rparr>\<rparr>"
| "getTransitionVariants SlideUp speed =
     \<lparr>v_initial = \<lparr>kf_opacity = 0, kf_x = None, kf_y = Some 20, kf_duration = None\<rparr>,
      v_animate = \<lparr>kf_opacity = 1, kf_x = None, kf_y = Some 0, kf_duration = Some speed\<rparr>,
      v_exit = \<lparr>kf_opacity = 0, kf_x = None, kf_y = Some (- 20), kf_duration = Some (speed / 2)\<rparr>\<rparr>"
| "getTransitionVariants SlideLeft speed =
     \<lparr>v_initial = \<lparr>kf_opacity = 0, kf_x = Some 20, kf_y = None, kf_duration = None\<rparr>,
      v_animate = \<lparr>kf_opacity = 1, kf_x = Some 0, kf_y = None, kf_duration = Some speed\<rparr>,
      v_exit = \<lparr>kf_opacity = 0, kf_x = Some (- 20), kf_y = None, kf_duration = Some (speed / 2)\<rparr>\<rparr>"
| "getTransitionVariants _ speed =
     \<lparr>v_initial = \<lparr>kf_opacity = 1, kf_x = None, kf_y = None, kf_duration = None\<rparr>,
      v_animate = \<lparr>kf_opacity = 1, kf_x = None, kf_y = None, kf_duration = None\<rparr>,
      v_exit = \<lparr>kf_opacity = 1, kf_x = None, kf_y = None, kf_duration = None\<rparr>\<rparr>"

text \<open>
  A list component calls \<open>getTransitionSpeed(settings.transitionSpeed,
  settings.customTransitionSeconds)\<close> and hands the result to its rows, which call
  \<open>getTransitionVariants\<close> with it.
\<close>

section \<open>The hook \<open>useOverflowTransition\<close>\<close>

text \<open>
  The scroll container as the hook reads and writes it: its \<open>clientHeight\<close> and
  \<open>scrollHeight\<close>, its \<open>scrollTop\<close>, and \<open>contentMeasure\<close>, the \<open>scrollHeight\<close> of
  the node \<open>querySelector('[data-content-measure]')\<close> finds (\<open>None\<close> when there is none).
  The browser clamps a value assigned to \<open>scrollTop\<close>; the record keeps the value assigned.
\<close>

record container =
  clientHeight :: int
  scrollHeight :: int
  scrollTop :: rat
  contentMeasure :: "int option"

record hook_settings =
  transitionStyle :: TransitionStyle
  transitionSpeed :: string
  smoothScrollEnabled :: bool
  customTransitionSeconds :: rat

text \<open>
  The handles the hook keeps. An interval remembers its period and what its callback has
  captured: the paged one \<open>totalPages\<close>, the stepped one the step size and the scroll
  behaviour. The animation-frame loop has captured \<open>scrollSpeed\<close> and
  \<open>singleSetHeight\<close>.
\<close>

datatype interval = PagedInterval int int | SteppedInterval int int bool

datatype animation = GentleAnimation rat rat

text \<open>
  The state of one instance of the hook: the three \<open>useState\<close> cells, the five refs, and
  \<open>containerRef.current\<close>.
\<close>

record hook =
  currentPage :: int
  hasOverflow :: bool
  itemsPerPage :: int
  scrollPositionRef :: rat
  animationRef :: "animation option"
  lastTimeRef :: rat
  intervalRef :: "interval option"
  isAnimatingRef :: bool
  containerRef :: "container option"

definition initialHook :: "container option \<Rightarrow> hook" where
  "initialHook c =
     \<lparr>currentPage = 0, hasOverflow = False, itemsPerPage = 10, scrollPositionRef = 0,
      animationRef = None, lastTimeRef = 0, intervalRef = None, isAnimatingRef = False,
      containerRef = c\<rparr>"

text \<open>
  \<open>checkOverflow\<close>, for a list of \<open>itemsLength\<close> items of the configured height
  \<open>itemHeight\<close>. Without a container nothing is recomputed.
\<close>

definition checkOverflow :: "int \<Rightarrow> int \<Rightarrow> hook \<Rightarrow> hook" where
  "checkOverflow itemsLength itemHeight h =
     (case containerRef h of
        None \<Rightarrow> h
      | Some c \<Rightarrow>
          (let containerHeight = clientHeight c;
               calculatedItemsPerPage = \<lfloor>(of_int containerHeight :: rat) / of_int itemHeight\<rfloor>;
               h1 = h\<lparr>itemsPerPage := max 1 calculatedItemsPerPage\<rparr>
           in case contentMeasure c of
                Some actualContentHeight \<Rightarrow>
                  h1\<lparr>hasOverflow := (actualContentHeight > containerHeight)\<rparr>
              | None \<Rightarrow>
                  (let availableHeight = containerHeight - 12;
                       totalItemHeight = itemsLength * itemHeight
                   in h1\<lparr>hasOverflow := (totalItemHeight > availableHeight)\<rparr>)))"

text \<open>\<open>totalPages = Math.max(1, Math.ceil(items.length / itemsPerPage))\<close>.\<close>

definition totalPages :: "int \<Rightarrow> hook \<Rightarrow> int" where
  "totalPages itemsLength h = max 1 \<lceil>(of_int itemsLength :: rat) / of_int (itemsPerPage h)\<rceil>"

definition isPaged :: "TransitionStyle \<Rightarrow> bool" where
  "isPaged style = (style = Fade \<or> style = SlideUp \<or> style = SlideLeft)"

text \<open>\<open>currentItems\<close>: the slice of the current page in paged mode, else the whole list.\<close>

definition currentItems :: "hook_settings \<Rightarrow> 'a list \<Rightarrow> hook \<Rightarrow> 'a list" where
  "currentItems st items h =
     (if hasOverflow h \<and> isPaged (transitionStyle st)
      then take (nat ((currentPage h + 1) * itemsPerPage h) - nat (currentPage h * itemsPerPage h))
             (drop (nat (currentPage h * itemsPerPage h)) items)
      else items)"

definition cleanupAnimations :: "hook \<Rightarrow> hook" where
  "cleanupAnimations h =
     h\<lparr>animationRef := None, intervalRef := None, isAnimatingRef := False, lastTimeRef := 0\<rparr>"

definition resetScroll :: "hook \<Rightarrow> hook" where
  "resetScroll h =
     h\<lparr>scrollPositionRef := 0,
       containerRef := map_option (\<lambda>c. c\<lparr>scrollTop := 0\<rparr>) (containerRef h)\<rparr>"

text \<open>
  The effect that depends on \<open>settings.transitionStyle\<close> and the effect that depends on
  \<open>items.length\<close> have the same body: clean up, reset the scroll position, and set the
  page to 0 in a microtask, which runs before any timer or frame callback can.
\<close>

definition styleResetEffect :: "hook \<Rightarrow> hook" where
  "styleResetEffect h = (resetScroll (cleanupAnimations h))\<lparr>currentPage := 0\<rparr>"

definition itemsResetEffect :: "hook \<Rightarrow> hook" where
  "itemsResetEffect h = (resetScroll (cleanupAnimations h))\<lparr>currentPage := 0\<rparr>"

text \<open>The pagination effect for \<open>fade\<close>, \<open>slideUp\<close> and \<open>slideLeft\<close>.\<close>

definition paginationEffect :: "hook_settings \<Rightarrow> int \<Rightarrow> hook \<Rightarrow> hook" where
  "paginationEffect st itemsLength h =
     (if \<not> hasOverflow h then h
      else if transitionStyle st \<noteq> Fade \<and> transitionStyle st \<noteq> SlideUp
              \<and> transitionStyle st \<noteq> SlideLeft then h
      else if totalPages itemsLength h \<le> 1 then h
      else (cleanupAnimations h)
             \<lparr>isAnimatingRef := True,
              intervalRef := Some (PagedInterval (getPageDisplayDuration (transitionSpeed st))
                                     (totalPages itemsLength h))\<rparr>)"

text \<open>The callback of the paged interval: \<open>setCurrentPage((prev) => (prev + 1) % totalPages)\<close>.\<close>

definition pagedTick :: "int \<Rightarrow> hook \<Rightarrow> hook" where
  "pagedTick capturedTotalPages h =
     (if \<not> isAnimatingRef h then h
      else h\<lparr>currentPage := (currentPage h + 1) mod capturedTotalPages\<rparr>)"

text \<open>
  The callback of the stepped interval of \<open>verticalAutoScroll\<close>; \<open>bottomTimeout\<close> is the
  callback of the timeout it sets at the bottom.
\<close>

definition steppedTick :: "int \<Rightarrow> hook \<Rightarrow> hook" where
  "steppedTick stepSize h =
     (case containerRef h of
        None \<Rightarrow> h
      | Some currentContainer \<Rightarrow>
          if \<not> isAnimatingRef h then h
          else (let maxScroll = scrollHeight currentContainer - clientHeight currentContainer;
                    pos = scrollPositionRef h + of_int stepSize
                in if pos \<ge> of_int maxScroll then h\<lparr>scrollPositionRef := pos\<rparr>
                   else h\<lparr>scrollPositionRef := pos,
                          containerRef := Some (currentContainer\<lparr>scrollTop := pos\<rparr>)\<rparr>))"

definition bottomTimeout :: "hook \<Rightarrow> hook" where
  "bottomTimeout h = (if \<not> isAnimatingRef h then h else resetScroll h)"

text \<open>One firing of whatever interval \<open>intervalRef\<close> holds.\<close>

definition intervalTick :: "hook \<Rightarrow> hook" where
  "intervalTick h =
     (case intervalRef h of
        None \<Rightarrow> h
      | Some (PagedInterval period capturedTotalPages) \<Rightarrow> pagedTick capturedTotalPages h
      | Some (SteppedInterval period stepSize smooth) \<Rightarrow> steppedTick stepSize h)"

text \<open>
  The frame callback \<open>animate\<close> of \<open>gentleContinuousScroll\<close>. \<open>!lastTimeRef.current\<close>
  holds when the ref is 0.
\<close>

definition animate :: "rat \<Rightarrow> rat \<Rightarrow> rat \<Rightarrow> hook \<Rightarrow> hook" where
  "animate scrollSpeed singleSetHeight timestamp h =
     (if \<not> isAnimatingRef h then h
      else (let lastTime = (if lastTimeRef h = 0 then timestamp else lastTimeRef h);
                delta = timestamp - lastTime;
                advanced = scrollPositionRef h + (scrollSpeed * delta) / 1000;
                pos = (if advanced \<ge> singleSetHeight then advanced - singleSetHeight
                       else advanced)
            in h\<lparr>lastTimeRef := timestamp,
                 scrollPositionRef := pos,
                 containerRef := map_option (\<lambda>c. c\<lparr>scrollTop := pos\<rparr>) (containerRef h)\<rparr>))"

text \<open>One animation frame at time \<open>timestamp\<close>, if a frame is requested.\<close>

definition animationFrame :: "rat \<Rightarrow> hook \<Rightarrow> hook" where
  "animationFrame timestamp h =
     (case animationRef h of
        None \<Rightarrow> h
      | Some (GentleAnimation scrollSpeed singleSetHeight) \<Rightarrow>
          animate scrollSpeed singleSetHeight timestamp h)"

text \<open>The scroll effect for \<open>verticalAutoScroll\<close> and \<open>gentleContinuousScroll\<close>.\<close>

definition scrollEffect :: "hook_settings \<Rightarrow> int \<Rightarrow> hook \<Rightarrow> hook" where
  "scrollEffect st itemHeight h =
     (if \<not> hasOverflow h then h
      else if transitionStyle st \<noteq> VerticalAutoScroll
              \<and> transitionStyle st \<noteq> GentleContinuousScroll then h
      else case containerRef h of
             None \<Rightarrow> h
           | Some c \<Rightarrow>
               (let h1 = cleanupAnimations h;
                    scrollSpeed = getScrollSpeed (transitionSpeed st)
                in if transitionStyle st = GentleContinuousScroll
                   then (let singleSetHeight = of_int (scrollHeight c) / 2
                         in h1\<lparr>isAnimatingRef := True, lastTimeRef := 0,
                               animationRef := Some (GentleAnimation scrollSpeed singleSetHeight)\<rparr>)
                   else (let stepSize = itemHeight * 2; pauseDuration = 2000
                         in h1\<lparr>isAnimatingRef := True,
                               intervalRef := Some (SteppedInterval pauseDuration stepSize
                                                      (smoothScrollEnabled st))\<rparr>)))"

subsection \<open>The effects of a commit\<close>

text \<open>
  What the dependency arrays of the effects read in a render: the props
  \<open>settings.transitionStyle\<close>, \<open>settings.transitionSpeed\<close>, \<open>settings.smoothScrollEnabled\<close>,
  \<open>items.length\<close> and \<open>itemHeight\<close>, the state \<open>hasOverflow\<close> and \<open>itemsPerPage\<close>, and
  \<open>totalPages\<close>, computed from them. (\<open>cleanupAnimations\<close> and \<open>containerRef\<close> never change.)
\<close>

record render_deps =
  dep_style :: TransitionStyle
  dep_speed :: string
  dep_smooth :: bool
  dep_length :: int
  dep_itemHeight :: int
  dep_hasOverflow :: bool
  dep_totalPages :: int
  dep_itemsPerPage :: int

text \<open>
  A mounted column: the state of its hook, the props of its last render, the dependencies
  of the render before (\<open>None\<close> before the first commit), and whether the last run of the
  pagination effect and of the scroll effect returned the cleanup \<open>() => cleanupAnimations()\<close>
  (they return nothing when they leave early).
\<close>

record component =
  hookState :: hook
  settingsProp :: hook_settings
  itemsLengthProp :: int
  itemHeightProp :: int
  renderedDeps :: "render_deps option"
  paginationCleanup :: bool
  scrollCleanup :: bool

definition renderDeps :: "component \<Rightarrow> render_deps" where
  "renderDeps c =
     \<lparr>dep_style = transitionStyle (settingsProp c),
      dep_speed = transitionSpeed (settingsProp c),
      dep_smooth = smoothScrollEnabled (settingsProp c),
      dep_length = itemsLengthProp c,
      dep_itemHeight = itemHeightProp c,
      dep_hasOverflow = hasOverflow (hookState c),
      dep_totalPages = totalPages (itemsLengthProp c) (hookState c),
      dep_itemsPerPage = itemsPerPage (hookState c)\<rparr>"

text \<open>The dependency arrays of the pagination effect and of the scroll effect.\<close>

definition paginationDeps :: "render_deps \<Rightarrow> bool \<times> TransitionStyle \<times> string \<times> int \<times> int" where
  "paginationDeps d =
     (dep_hasOverflow d, dep_style d, dep_speed d, dep_totalPages d, dep_itemsPerPage d)"

definition scrollDeps :: "render_deps \<Rightarrow> bool \<times> TransitionStyle \<times> string \<times> bool \<times> int" where
  "scrollDeps d =
     (dep_hasOverflow d, dep_style d, dep_speed d, dep_smooth d, dep_itemHeight d)"

text \<open>An effect runs after the first render, and after a render in which one of its
  dependencies differs from the render before.\<close>

definition depsChanged :: "(render_deps \<Rightarrow> 'k) \<Rightarrow> component \<Rightarrow> bool" where
  "depsChanged deps c =
     (case renderedDeps c of
        None \<Rightarrow> True
      | Some previous \<Rightarrow> deps previous \<noteq> deps (renderDeps c))"

text \<open>Whether a run of the pagination effect, or of the scroll effect, gets past its early
  returns, and so returns its cleanup.\<close>

definition paginationInstalls :: "hook_settings \<Rightarrow> int \<Rightarrow> hook \<Rightarrow> bool" where
  "paginationInstalls st itemsLength h =
     (hasOverflow h \<and> isPaged (transitionStyle st) \<and> 1 < totalPages itemsLength h)"

definition scrollInstalls :: "hook_settings \<Rightarrow> hook \<Rightarrow> bool" where
  "scrollInstalls st h =
     (hasOverflow h
      \<and> (transitionStyle st = VerticalAutoScroll \<or> transitionStyle st = GentleContinuousScroll)
      \<and> containerRef h \<noteq> None)"

text \<open>
  The effects of one commit, as React runs them: first the cleanups of the effects that
  are about to run again, then the bodies of those effects in the order in which the hook
  declares them: the style reset, the pagination effect, the scroll effect, and last the
  list-length reset. (The effect that requests the overflow check changes no state of its
  own; the check is the event \<open>Measured\<close> below.)
\<close>

definition commitEffects :: "component \<Rightarrow> component" where
  "commitEffects c =
     (let st = settingsProp c;
          styleRuns = depsChanged dep_style c;
          paginationRuns = depsChanged paginationDeps c;
          scrollRuns = depsChanged scrollDeps c;
          lengthRuns = depsChanged dep_length c;
          h1 = (if paginationRuns \<and> paginationCleanup c
                then cleanupAnimations (hookState c) else hookState c);
          h2 = (if scrollRuns \<and> scrollCleanup c then cleanupAnimations h1 else h1);
          h3 = (if styleRuns then styleResetEffect h2 else h2);
          h4 = (if paginationRuns then paginationEffect st (itemsLengthProp c) h3 else h3);
          h5 = (if scrollRuns then scrollEffect st (itemHeightProp c) h4 else h4);
          h6 = (if lengthRuns then itemsResetEffect h5 else h5)
      in c\<lparr>hookState := h6,
           renderedDeps := Some (renderDeps c),
           paginationCleanup :=
             (if paginationRuns then paginationInstalls st (itemsLengthProp c) h3
              else paginationCleanup c),
           scrollCleanup :=
             (if scrollRuns then scrollInstalls st h4 else scrollCleanup c)\<rparr>)"

text \<open>The first render and commit of a column whose container is \<open>box\<close>.\<close>

definition mountHook :: "container \<Rightarrow> hook_settings \<Rightarrow> int \<Rightarrow> int \<Rightarrow> component" where
  "mountHook box st itemsLength itemHeight =
     commitEffects
       \<lparr>hookState = initialHook (Some box), settingsProp = st, itemsLengthProp = itemsLength,
        itemHeightProp = itemHeight, renderedDeps = None, paginationCleanup = False,
        scrollCleanup = False\<rparr>"

text \<open>
  What happens to a mounted column: a render with new props; a run of \<open>checkOverflow\<close>
  (from the animation frame requested after a change of the list's length, or from the
  resize observer) on the container as it is laid out then; a firing of the interval.
  Each is followed by the commit of the render it causes.
\<close>

datatype hook_event =
  Rendered hook_settings int int
| Measured container
| IntervalFired

fun hookStep :: "hook_event \<Rightarrow> component \<Rightarrow> component" where
  "hookStep (Rendered st itemsLength itemHeight) c =
     commitEffects (c\<lparr>settingsProp := st, itemsLengthProp := itemsLength,
                      itemHeightProp := itemHeight\<rparr>)"
| "hookStep (Measured box) c =
     commitEffects
       (c\<lparr>hookState := checkOverflow (itemsLengthProp c) (itemHeightProp c)
                          ((hookState c)\<lparr>containerRef := Some box\<rparr>)\<rparr>)"
| "hookStep IntervalFired c = commitEffects (c\<lparr>hookState := intervalTick (hookState c)\<rparr>)"

fun hookRun :: "hook_event list \<Rightarrow> component \<Rightarrow> component" where
  "hookRun [] c = c"
| "hookRun (e # es) c = hookRun es (hookStep e c)"

section \<open>Notifications\<close>

text \<open>
  \<open>event.timeStart.split(':').map(Number)\<close>. \<open>Number\<close> is modelled on strings of decimal
  digits, which is what a time input produces; the empty string gives 0 and any other
  string \<open>NaN\<close>, written \<open>None\<close>.
\<close>

fun splitColon :: "string \<Rightarrow> string list" where
  "splitColon [] = [[]]"
| "splitColon (c # cs) =
     (if c = CHR '':'' then [] # splitColon cs
      else (case splitColon cs of [] \<Rightarrow> [[c]] | part # parts \<Rightarrow> (c # part) # parts))"

definition digitValue :: "char \<Rightarrow> int option" where
  "digitValue c =
     (if CHR ''0'' \<le> c \<and> c \<le> CHR ''9'' then Some (int (of_char c) - 48) else None)"

fun digitsValue :: "int \<Rightarrow> string \<Rightarrow> int option" where
  "digitsValue acc [] = Some acc"
| "digitsValue acc (c # cs) =
     (case digitValue c of None \<Rightarrow> None | Some d \<Rightarrow> digitsValue (acc * 10 + d) cs)"

definition Number :: "string \<Rightarrow> int option" where
  "Number str = digitsValue 0 str"

text \<open>
  \<open>const [hours, minutes] = ...\<close>: with fewer than two parts \<open>minutes\<close> is undefined, and
  with a part that is not a number it is \<open>NaN\<close>; either way \<open>setHours\<close> yields an invalid
  date, every comparison with the difference is false, and the event is passed over.
\<close>

definition parseTime :: "string \<Rightarrow> (int \<times> int) option" where
  "parseTime t =
     (case map Number (splitColon t) of
        Some hours # Some minutes # _ \<Rightarrow> Some (hours, minutes)
      | _ \<Rightarrow> None)"

text \<open>
  \<open>differenceInMinutes\<close> of the library date-fns, on milliseconds: the number of full
  minutes between two instants, rounded toward zero (the library's default rounding).
\<close>

definition differenceInMinutes :: "int \<Rightarrow> int \<Rightarrow> int" where
  "differenceInMinutes dateLeft dateRight =
     (let diff = dateLeft - dateRight
      in if 0 \<le> diff then diff div 60000 else - ((- diff) div 60000))"

record 'e EventNotification =
  n_event :: 'e
  minutesUntil :: int

text \<open>
  One turn of the loop of \<open>getUpcomingEvents\<close>. \<open>isToday(parseISO(event.dateStarted))\<close> is
  modelled as equality of the date string with today's formatted date; the start time is
  today's midnight plus \<open>hours\<close> and \<open>minutes\<close>, in milliseconds.
\<close>

definition upcomingNotification ::
  "clock \<Rightarrow> int \<Rightarrow> ('a ScheduleEvent_base_scheme) \<Rightarrow>
   ('a ScheduleEvent_base_scheme) EventNotification option" where
  "upcomingNotification now minutesBefore event =
     (if dateStarted event \<noteq> today now then None
      else case parseTime (timeStart event) of
             None \<Rightarrow> None
           | Some (hours, minutes) \<Rightarrow>
               (let eventStartTime = hours * 3600000 + minutes * 60000;
                    diffMinutes = differenceInMinutes eventStartTime (msOfDay now)
                in if diffMinutes > 0 \<and> diffMinutes \<le> minutesBefore
                   then Some \<lparr>n_event = event, minutesUntil = diffMinutes\<rparr>
                   else None))"

fun upcomingLoop ::
  "clock \<Rightarrow> int \<Rightarrow> ('a ScheduleEvent_base_scheme) list \<Rightarrow>
   ('a ScheduleEvent_base_scheme) EventNotification list" where
  "upcomingLoop now minutesBefore [] = []"
| "upcomingLoop now minutesBefore (event # rest) =
     (case upcomingNotification now minutesBefore event of
        None \<Rightarrow> upcomingLoop now minutesBefore rest
      | Some n \<Rightarrow> n # upcomingLoop now minutesBefore rest)"

text \<open>\<open>getUpcomingEvents\<close>: the loop, then a stable sort by \<open>minutesUntil\<close>.\<close>

definition getUpcomingEvents ::
  "clock \<Rightarrow> ('a ScheduleEvent_base_scheme) list \<Rightarrow> int \<Rightarrow>
   ('a ScheduleEvent_base_scheme) EventNotification list" where
  "getUpcomingEvents now events minutesBefore =
     sort_key minutesUntil (upcomingLoop now minutesBefore events)"

text \<open>\<open>Array.prototype.join(',')\<close> on strings.\<close>

fun joinComma :: "string list \<Rightarrow> string" where
  "joinComma [] = []"
| "joinComma [x] = x"
| "joinComma (x # y # ys) = x @ '','' @ joinComma (y # ys)"

text \<open>
  The notification state of the page. The three cells the source names: the active
  notifications, the set of dismissed ids (a JavaScript \<open>Set\<close>, kept as the list of its
  members in insertion order) and the ids of the previous check; the number of chimes
  played so far; and the state of the effect that runs the checks: the values of its
  dependencies \<open>[todayEventsKey, dismissedKey, _hasHydrated]\<close> when it last ran, what the
  callback \<open>checkNotifications\<close> of that run has captured, and whether its interval is set.
\<close>

record 'e notifier =
  activeNotifications :: "'e EventNotification list"
  dismissedNotifications :: "string list"
  previousNotificationIds :: "string set"
  chimes :: nat
  effectDeps :: "(string \<times> string \<times> bool) option"
  capturedTodayEvents :: "'e list"
  capturedDismissed :: "string list"
  checkInterval :: bool

definition initialNotifier :: "'e notifier" where
  "initialNotifier =
     \<lparr>activeNotifications = [], dismissedNotifications = [], previousNotificationIds = {},
      chimes = 0, effectDeps = None, capturedTodayEvents = [], capturedDismissed = [],
      checkInterval = False\<rparr>"

text \<open>\<open>todayEvents\<close>, computed at each render from the events of the store.\<close>

definition todayEvents ::
  "clock \<Rightarrow> ('a ScheduleEvent_base_scheme) list \<Rightarrow> ('a ScheduleEvent_base_scheme) list" where
  "todayEvents now events = filter (\<lambda>e. dateStarted e = today now) events"

text \<open>
  \<open>checkNotifications\<close>, at the time \<open>now\<close>: \<open>todayEvents\<close> and
  \<open>dismissedNotifications\<close> are the values of the render in which the effect last ran.
\<close>

definition checkNotifications ::
  "clock \<Rightarrow> ('a ScheduleEvent_base_scheme) notifier \<Rightarrow> ('a ScheduleEvent_base_scheme) notifier"
  where
  "checkNotifications now st =
     (let upcoming = getUpcomingEvents now (capturedTodayEvents st) 5;
          newNotifications =
            filter (\<lambda>n. event_id (n_event n) \<notin> set (capturedDismissed st)) upcoming;
          newIds = set (map (\<lambda>n. event_id (n_event n)) newNotifications);
          hasNewNotifications = (\<exists>i \<in> newIds. i \<notin> previousNotificationIds st)
      in st\<lparr>chimes := (if hasNewNotifications \<and> length newNotifications > 0
                        then chimes st + 1 else chimes st),
            previousNotificationIds := newIds,
            activeNotifications := newNotifications\<rparr>)"

text \<open>
  The effect, after a render at the time \<open>now\<close> in which the store holds \<open>events\<close> and
  \<open>_hasHydrated\<close> is \<open>hydrated\<close>. It runs when a dependency has changed (and on mount):
  the interval of the previous run is cleared, and unless the store is not hydrated yet,
  the new callback is run at once and every 10 seconds from then on.
\<close>

definition notificationEffect ::
  "clock \<Rightarrow> ('a ScheduleEvent_base_scheme) list \<Rightarrow> bool \<Rightarrow>
   ('a ScheduleEvent_base_scheme) notifier \<Rightarrow> ('a ScheduleEvent_base_scheme) notifier" where
  "notificationEffect now events hydrated st =
     (let todays = todayEvents now events;
          todayEventsKey = joinComma (map event_id todays);
          dismissedKey = joinComma (dismissedNotifications st);
          deps = (todayEventsKey, dismissedKey, hydrated)
      in if effectDeps st = Some deps then st
         else if \<not> hydrated then st\<lparr>effectDeps := Some deps, checkInterval := False\<rparr>
         else (checkNotifications now
                 (st\<lparr>effectDeps := Some deps,
                     capturedTodayEvents := todays,
                     capturedDismissed := dismissedNotifications st\<rparr>))
              \<lparr>checkInterval := True\<rparr>)"

text \<open>\<open>dismissNotification\<close>: \<open>new Set([...prev, eventId])\<close> and the filter.\<close>

definition dismissNotification ::
  "string \<Rightarrow> ('a ScheduleEvent_base_scheme) notifier \<Rightarrow> ('a ScheduleEvent_base_scheme) notifier"
  where
  "dismissNotification eventId st =
     st\<lparr>dismissedNotifications :=
          (if eventId \<in> set (dismissedNotifications st) then dismissedNotifications st
           else dismissedNotifications st @ [eventId]),
        activeNotifications :=
          filter (\<lambda>n. event_id (n_event n) \<noteq> eventId) (activeNotifications st)\<rparr>"

text \<open>
  What can happen to the notification state during a session: a render (followed by the
  effect), a tick of the interval, or a click on the dismiss button, which sets state and
  so is followed by a render too. A render carries the time, the events of the store and
  whether the store is hydrated.
\<close>

datatype 'e notifier_action =
  Render clock "'e list" bool
| Tick clock
| Dismiss string clock "'e list" bool

fun notifierStep ::
  "('a ScheduleEvent_base_scheme) notifier_action \<Rightarrow>
   ('a ScheduleEvent_base_scheme) notifier \<Rightarrow> ('a ScheduleEvent_base_scheme) notifier" where
  "notifierStep (Render now events hydrated) st = notificationEffect now events hydrated st"
| "notifierStep (Tick now) st = (if checkInterval st then checkNotifications now st else st)"
| "notifierStep (Dismiss eventId now events hydrated) st =
     notificationEffect now events hydrated (dismissNotification eventId st)"

fun notifierRun ::
  "('a ScheduleEvent_base_scheme) notifier_action list \<Rightarrow>
   ('a ScheduleEvent_base_scheme) notifier \<Rightarrow> ('a ScheduleEvent_base_scheme) notifier" where
  "notifierRun [] st = st"
| "notifierRun (a # as) st = notifierRun as (notifierStep a st)"

section \<open>The store\<close>

datatype PersonnelType = CTO | FL | WFH | TRAVEL

text \<open>
  \<open>PersonnelStatus\<close> and \<open>Project\<close>: the fields of the root variant, extended in \<open>v1/\<close>.
  The counter of a project is \<open>count\<close> in the root variant and \<open>number\<close> in \<open>v1/\<close>.
\<close>

record PersonnelStatus =
  personnel_id :: string
  personnel_name :: string
  personnel_type :: PersonnelType
  dateStart :: string
  personnel_dateEnd :: string

record PersonnelStatus_v1 = PersonnelStatus +
  location :: "string option"
  personnel_createdAt :: string

record Project_base =
  project_id :: string
  project_name :: string

record Project = Project_base +
  count :: int

record Project_v1 = Project_base +
  number :: int
  project_createdAt :: string

text \<open>
  A settings object is a map from its keys to JSON values, so that the spread
  \<open>{ ...a, ...b }\<close> is \<open>a ++ b\<close>.
\<close>

datatype jval = JString string | JNumber rat | JBool bool | JNull | JObject "(string \<times> jval) list"

type_synonym settings_object = "string \<rightharpoonup> jval"

definition defaultStatusColors_v1 :: jval where
  "defaultStatusColors_v1 =
     JObject [(''upcoming'', JString ''#3b82f6''), (''ongoing'', JString ''#22c55e''),
              (''completed'', JString ''#9ca3af'')]"

definition defaultSettings_v1 :: settings_object where
  "defaultSettings_v1 =
     map_of [(''theme'', JString ''light''),
             (''transitionStyle'', JString ''static''),
             (''transitionSpeed'', JString ''normal''),
             (''customTransitionSeconds'', JNumber 3),
             (''smoothScrollEnabled'', JBool True),
             (''statusColors'', defaultStatusColors_v1),
             (''passwordEnabled'', JBool False),
             (''password'', JString []),
             (''passwordHint'', JString []),
             (''recoveryEmail'', JString []),
             (''failedAttempts'', JNumber 0),
             (''lockoutUntil'', JNull),
             (''pinEnabled'', JBool False),
             (''pin'', JString [])]"

definition defaultStatusColors :: jval where
  "defaultStatusColors =
     JObject [(''upcoming'', JString ''#3b82f6''), (''ongoing'', JString ''#22c55e''),
              (''completed'', JString ''#6b7280'')]"

definition defaultSettings :: settings_object where
  "defaultSettings =
     map_of [(''pinEnabled'', JBool False),
             (''pin'', JString []),
             (''passwordEnabled'', JBool False),
             (''password'', JString []),
             (''passwordHint'', JString []),
             (''recoveryEmail'', JString []),
             (''failedAttempts'', JNumber 0),
             (''lockoutUntil'', JNull),
             (''theme'', JString ''system''),
             (''transitionStyle'', JString ''static''),
             (''transitionSpeed'', JString ''normal''),
             (''smoothScrollEnabled'', JBool True),
             (''customTransitionSeconds'', JNumber 3),
             (''statusColors'', defaultStatusColors)]"

text \<open>
  The outcome of \<open>fetch\<close> followed by \<open>response.json()\<close>: an exception (caught by the
  caller), a response that is not \<open>ok\<close>, or an \<open>ok\<close> response with its parsed body.
\<close>

datatype 'd fetched = Threw | NotOk | Ok 'd

text \<open>\<open>a || b\<close> on a field that may be missing or null.\<close>

definition orElse :: "'a option \<Rightarrow> 'a \<Rightarrow> 'a" where
  "orElse a b = (case a of None \<Rightarrow> b | Some v \<Rightarrow> v)"


subsection \<open>The store of \<open>v1/\<close>\<close>

text \<open>The body of a response of \<open>/api/schedule\<close> as the store of \<open>v1/\<close> reads it.\<close>

record document_v1 =
  doc_events_v1 :: "ScheduleEvent_v1 list option"
  doc_personnelStatuses :: "PersonnelStatus_v1 list option"
  doc_projects_v1 :: "Project_v1 list option"
  doc_settings_v1 :: "settings_object option"

text \<open>
  The state of the store of \<open>v1/\<close> together with the variables of its module:
  \<open>saveTimeout\<close> and \<open>syncInterval\<close> say whether the handle is set.
\<close>

record store_v1 =
  events_v1 :: "ScheduleEvent_v1 list"
  personnelStatuses :: "PersonnelStatus_v1 list"
  projects_v1 :: "Project_v1 list"
  settings_v1 :: settings_object
  hasHydrated_v1 :: bool
  saveTimeout :: bool
  syncInterval_v1 :: bool
  lastServerUpdate :: string



definition startAutoSync_v1 :: "store_v1 \<Rightarrow> store_v1" where
  "startAutoSync_v1 s = (if syncInterval_v1 s then s else s\<lparr>syncInterval_v1 := True\<rparr>)"

definition stopAutoSync_v1 :: "store_v1 \<Rightarrow> store_v1" where
  "stopAutoSync_v1 s = (if syncInterval_v1 s then s\<lparr>syncInterval_v1 := False\<rparr> else s)"

text \<open>
  \<open>saveToServer\<close> of \<open>v1/\<close> only (re)schedules the debounced push; \<open>saveTimeoutFired\<close> is
  the callback of that timeout, given whether the POST came back \<open>ok\<close>.
\<close>

definition saveToServer_v1 :: "store_v1 \<Rightarrow> store_v1" where
  "saveToServer_v1 s = s\<lparr>saveTimeout := True\<rparr>"

definition saveTimeoutFired ::
  "(document_v1 option \<Rightarrow> string) \<Rightarrow> unit fetched \<Rightarrow> store_v1 \<Rightarrow> store_v1" where
  "saveTimeoutFired stringify response s =
     (let dataToSend = \<lparr>doc_events_v1 = Some (events_v1 s),
                         doc_personnelStatuses = Some (personnelStatuses s),
                         doc_projects_v1 = Some (projects_v1 s),
                         doc_settings_v1 = Some (settings_v1 s)\<rparr>
      in case response of
           Ok _ \<Rightarrow> s\<lparr>lastServerUpdate := stringify (Some dataToSend)\<rparr>
         | _ \<Rightarrow> s)"

text \<open>
  \<open>addEvent\<close> of \<open>v1/\<close>: \<open>{ ...eventData, id: generateId(), createdAt: ... }\<close>, where
  \<open>newId\<close> and \<open>stamp\<close> stand for what \<open>generateId()\<close> and \<open>new Date().toISOString()\<close>
  return.
\<close>

definition addEvent_v1 ::
  "string \<Rightarrow> string \<Rightarrow> 'a ScheduleEvent_base_scheme \<Rightarrow> store_v1 \<Rightarrow> store_v1" where
  "addEvent_v1 newId stamp eventData s =
     (let newEvent = \<lparr>event_id = newId, title = title eventData,
                       dateStarted = dateStarted eventData, timeStart = timeStart eventData,
                       timeEnd = timeEnd eventData, details = details eventData,
                       createdAt = stamp\<rparr>
      in saveToServer_v1 (s\<lparr>events_v1 := events_v1 s @ [newEvent]\<rparr>))"

text \<open>The project actions of \<open>v1/\<close>. A patch is the \<open>Partial<Project>\<close> of \<open>updateProject\<close>.\<close>

record ProjectPatch =
  patch_name :: "string option"
  patch_number :: "int option"

definition addProject_v1 :: "string \<Rightarrow> string \<Rightarrow> string \<Rightarrow> int \<Rightarrow> store_v1 \<Rightarrow> store_v1" where
  "addProject_v1 newId stamp name num s =
     (let newProject = \<lparr>project_id = newId, project_name = name, number = num,
                         project_createdAt = stamp\<rparr>
      in saveToServer_v1 (s\<lparr>projects_v1 := projects_v1 s @ [newProject]\<rparr>))"

definition updateProject_v1 :: "string \<Rightarrow> ProjectPatch \<Rightarrow> store_v1 \<Rightarrow> store_v1" where
  "updateProject_v1 pid projectData s =
     saveToServer_v1
       (s\<lparr>projects_v1 :=
            map (\<lambda>project. if project_id project = pid
                            then project\<lparr>project_name := orElse (patch_name projectData)
                                                             (project_name project),
                                        number := orElse (patch_number projectData)
                                                    (number project)\<rparr>
                            else project)
                (projects_v1 s)\<rparr>)"

definition deleteProject_v1 :: "string \<Rightarrow> store_v1 \<Rightarrow> store_v1" where
  "deleteProject_v1 pid s =
     saveToServer_v1
       (s\<lparr>projects_v1 := filter (\<lambda>project. project_id project \<noteq> pid) (projects_v1 s)\<rparr>)"

definition incrementProject :: "string \<Rightarrow> store_v1 \<Rightarrow> store_v1" where
  "incrementProject pid s =
     saveToServer_v1
       (s\<lparr>projects_v1 :=
            map (\<lambda>project. if project_id project = pid
                            then project\<lparr>number := number project + 1\<rparr> else project)
                (projects_v1 s)\<rparr>)"

definition decrementProject :: "string \<Rightarrow> store_v1 \<Rightarrow> store_v1" where
  "decrementProject pid s =
     saveToServer_v1
       (s\<lparr>projects_v1 :=
            map (\<lambda>project. if project_id project = pid
                            then project\<lparr>number := max 0 (number project - 1)\<rparr> else project)
                (projects_v1 s)\<rparr>)"

subsection \<open>The store of the root variant\<close>


record store =
  events :: "ScheduleEvent list"
  personnel :: "PersonnelStatus list"
  projects :: "Project list"
  settings :: settings_object
  hasHydrated :: bool
  syncInterval :: bool


definition saveToServer :: "store \<Rightarrow> store" where
  "saveToServer s = s"


definition addEvent :: "ScheduleEvent \<Rightarrow> store \<Rightarrow> store" where
  "addEvent event s = saveToServer (s\<lparr>events := events s @ [event]\<rparr>)"

definition addProject :: "Project \<Rightarrow> store \<Rightarrow> store" where
  "addProject project s = saveToServer (s\<lparr>projects := projects s @ [project]\<rparr>)"

definition updateProject :: "Project \<Rightarrow> store \<Rightarrow> store" where
  "updateProject project s =
     saveToServer
       (s\<lparr>projects := map (\<lambda>p. if project_id p = project_id project then project else p)
                          (projects s)\<rparr>)"

definition deleteProject :: "string \<Rightarrow> store \<Rightarrow> store" where
  "deleteProject pid s =
     saveToServer (s\<lparr>projects := filter (\<lambda>p. project_id p \<noteq> pid) (projects s)\<rparr>)"

definition incrementProjectCount :: "string \<Rightarrow> store \<Rightarrow> store" where
  "incrementProjectCount pid s =
     saveToServer
       (s\<lparr>projects := map (\<lambda>p. if project_id p = pid then p\<lparr>count := count p + 1\<rparr> else p)
                          (projects s)\<rparr>)"

definition decrementProjectCount :: "string \<Rightarrow> store \<Rightarrow> store" where
  "decrementProjectCount pid s =
     saveToServer
       (s\<lparr>projects := map (\<lambda>p. if project_id p = pid
                                 then p\<lparr>count := max 0 (count p - 1)\<rparr> else p)
                          (projects s)\<rparr>)"

section \<open>The add-event form\<close>

text \<open>
  \<open>String.prototype.trim\<close>, on the white space of ASCII: tab, line feed, vertical tab,
  form feed, carriage return and space.
\<close>

definition isWhiteSpace :: "char \<Rightarrow> bool" where
  "isWhiteSpace c = (of_char c \<in> {9, 10, 11, 12, 13, 32 :: nat})"

definition trim :: "string \<Rightarrow> string" where
  "trim str = rev (dropWhile isWhiteSpace (rev (dropWhile isWhiteSpace str)))"

text \<open>The state of \<open>AddEventModal\<close> in \<open>v1/\<close>.\<close>

record AddEventModal_v1 =
  m_title :: string
  m_dateStarted :: string
  m_timeStart :: string
  m_timeEnd :: string
  m_details :: string
  m_isAllDay :: bool
  m_error :: string
  m_isSubmitting :: bool

text \<open>
  \<open>handleSubmit\<close> of \<open>AddEventModal\<close> in \<open>v1/\<close>, on the form and the store.
  \<open>todayStr\<close> is \<open>format(new Date(), 'yyyy-MM-dd')\<close>. The flag \<open>isSubmitting\<close> is
  cleared again by a timeout 500 ms after a successful submission.
\<close>

definition handleSubmit_v1 ::
  "string \<Rightarrow> string \<Rightarrow> string \<Rightarrow> AddEventModal_v1 \<times> store_v1 \<Rightarrow> AddEventModal_v1 \<times> store_v1"
  where
  "handleSubmit_v1 newId stamp todayStr fs =
     (case fs of (f, s) \<Rightarrow>
        if m_isSubmitting f then (f, s)
        else if trim (m_title f) = []
          then (f\<lparr>m_error := ''Event title is required'', m_isSubmitting := False\<rparr>, s)
        else if \<not> m_isAllDay f \<and> m_timeEnd f \<le> m_timeStart f
          then (f\<lparr>m_error := ''End time must be after start time'', m_isSubmitting := False\<rparr>, s)
        else
          (f\<lparr>m_title := [], m_dateStarted := todayStr, m_timeStart := ''09:00'',
             m_timeEnd := ''10:00'', m_details := [], m_isAllDay := False, m_error := [],
             m_isSubmitting := True\<rparr>,
           addEvent_v1 newId stamp
             \<lparr>event_id = [], title = trim (m_title f), dateStarted = m_dateStarted f,
              timeStart = m_timeStart f, timeEnd = m_timeEnd f,
              details = (if trim (m_details f) = [] then None else Some (trim (m_details f)))\<rparr>
             s))"

definition submitTimeout_v1 :: "AddEventModal_v1 \<Rightarrow> AddEventModal_v1" where
  "submitTimeout_v1 f = f\<lparr>m_isSubmitting := False\<rparr>"

text \<open>
  The state of \<open>AddEventModal\<close> in the root variant (\<open>a_open\<close> is the \<open>open\<close> property,
  which \<open>onClose\<close> clears), and its \<open>handleSubmit\<close>; \<open>newId\<close> is
  \<open>Date.now().toString()\<close>.
\<close>

record AddEventModal =
  a_title :: string
  a_dateStarted :: string
  a_dateEnd :: string
  a_timeStart :: string
  a_timeEnd :: string
  a_details :: string
  a_open :: bool

definition handleSubmit :: "string \<Rightarrow> AddEventModal \<times> store \<Rightarrow> AddEventModal \<times> store" where
  "handleSubmit newId fs =
     (case fs of (f, s) \<Rightarrow>
        if a_title f = [] \<or> a_dateStarted f = [] \<or> a_timeStart f = [] \<or> a_timeEnd f = []
        then (f, s)
        else
          (f\<lparr>a_title := [], a_details := [], a_open := False\<rparr>,
           addEvent
             \<lparr>event_id = newId, title = a_title f, dateStarted = a_dateStarted f,
              timeStart = a_timeStart f, timeEnd = a_timeEnd f, details = Some (a_details f),
              dateEnd = (if a_dateEnd f = [] then a_dateStarted f else a_dateEnd f)\<rparr>
             s))"

section \<open>The project forms\<close>

text \<open>
  The state of \<open>AddProjectModal\<close> and of \<open>EditProjectModal\<close> in \<open>v1/\<close>, and their
  \<open>handleSubmit\<close>. \<open>parseInt\<close> is a parameter; \<open>None\<close> is \<open>NaN\<close>. The project that
  \<open>EditProjectModal\<close> edits is its property \<open>project\<close>, which may be \<open>null\<close>.
\<close>

record ProjectModal_v1 =
  pm_name :: string
  pm_number :: string
  pm_error :: string
  pm_isSubmitting :: bool

definition addProjectSubmit_v1 ::
  "(string \<Rightarrow> int option) \<Rightarrow> string \<Rightarrow> string \<Rightarrow> ProjectModal_v1 \<times> store_v1 \<Rightarrow>
   ProjectModal_v1 \<times> store_v1" where
  "addProjectSubmit_v1 parseInt newId stamp fs =
     (case fs of (f, s) \<Rightarrow>
        if pm_isSubmitting f then (f, s)
        else if trim (pm_name f) = []
          then (f\<lparr>pm_error := ''Project name is required'', pm_isSubmitting := False\<rparr>, s)
        else (case parseInt (pm_number f) of
                None \<Rightarrow>
                  (f\<lparr>pm_error := ''Please enter a valid number'', pm_isSubmitting := False\<rparr>, s)
              | Some numValue \<Rightarrow>
                  if numValue < 0
                  then (f\<lparr>pm_error := ''Please enter a valid number'',
                          pm_isSubmitting := False\<rparr>, s)
                  else (f\<lparr>pm_name := [], pm_number := ''0'', pm_error := [],
                          pm_isSubmitting := True\<rparr>,
                        addProject_v1 newId stamp (trim (pm_name f)) numValue s)))"

definition editProjectSubmit_v1 ::
  "(string \<Rightarrow> int option) \<Rightarrow> Project_v1 option \<Rightarrow> ProjectModal_v1 \<times> store_v1 \<Rightarrow>
   ProjectModal_v1 \<times> store_v1" where
  "editProjectSubmit_v1 parseInt project fs =
     (case fs of (f, s) \<Rightarrow>
        case project of
          None \<Rightarrow> (f, s)
        | Some edited \<Rightarrow>
            if pm_isSubmitting f then (f, s)
            else if trim (pm_name f) = []
              then (f\<lparr>pm_error := ''Project name is required'', pm_isSubmitting := False\<rparr>, s)
            else (case parseInt (pm_number f) of
                    None \<Rightarrow>
                      (f\<lparr>pm_error := ''Please enter a valid number'',
                         pm_isSubmitting := False\<rparr>, s)
                  | Some numValue \<Rightarrow>
                      if numValue < 0
                      then (f\<lparr>pm_error := ''Please enter a valid number'',
                              pm_isSubmitting := False\<rparr>, s)
                      else (f\<lparr>pm_error := [], pm_isSubmitting := True\<rparr>,
                            updateProject_v1 (project_id edited)
                              \<lparr>patch_name = Some (trim (pm_name f)),
                               patch_number = Some numValue\<rparr> s)))"

text \<open>
  The same two forms in the root variant: the only field is the name; a new project starts
  at \<open>count: 0\<close>, and an edit passes \<open>{ ...project, name }\<close>.
\<close>

record ProjectModal =
  p_name :: string
  p_open :: bool

definition addProjectSubmit :: "string \<Rightarrow> ProjectModal \<times> store \<Rightarrow> ProjectModal \<times> store" where
  "addProjectSubmit newId fs =
     (case fs of (f, s) \<Rightarrow>
        if p_name f = [] then (f, s)
        else (f\<lparr>p_name := [], p_open := False\<rparr>,
              addProject \<lparr>project_id = newId, project_name = p_name f, count = 0\<rparr> s))"

definition editProjectSubmit ::
  "Project option \<Rightarrow> ProjectModal \<times> store \<Rightarrow> ProjectModal \<times> store" where
  "editProjectSubmit project fs =
     (case fs of (f, s) \<Rightarrow>
        case project of
          None \<Rightarrow> (f, s)
        | Some edited \<Rightarrow>
            if p_name f = [] then (f, s)
            else (f\<lparr>p_open := False\<rparr>,
                  updateProject (edited\<lparr>project_name := p_name f\<rparr>) s))"

text \<open>
  What the project list offers in \<open>v1/\<close>: the two forms, the delete button, and the
  plus and minus buttons of a row; then a sequence of such actions.
\<close>

datatype project_action_v1 =
  SubmitAdd_v1 string string ProjectModal_v1
| SubmitEdit_v1 "Project_v1 option" ProjectModal_v1
| Delete_v1 string
| Increment_v1 string
| Decrement_v1 string

fun projectAction_v1 ::
  "(string \<Rightarrow> int option) \<Rightarrow> project_action_v1 \<Rightarrow> store_v1 \<Rightarrow> store_v1" where
  "projectAction_v1 parseInt (SubmitAdd_v1 newId stamp f) s =
     snd (addProjectSubmit_v1 parseInt newId stamp (f, s))"
| "projectAction_v1 parseInt (SubmitEdit_v1 project f) s =
     snd (editProjectSubmit_v1 parseInt project (f, s))"
| "projectAction_v1 parseInt (Delete_v1 pid) s = deleteProject_v1 pid s"
| "projectAction_v1 parseInt (Increment_v1 pid) s = incrementProject pid s"
| "projectAction_v1 parseInt (Decrement_v1 pid) s = decrementProject pid s"

fun projectActions_v1 ::
  "(string \<Rightarrow> int option) \<Rightarrow> project_action_v1 list \<Rightarrow> store_v1 \<Rightarrow> store_v1" where
  "projectActions_v1 parseInt [] s = s"
| "projectActions_v1 parseInt (a # as) s =
     projectActions_v1 parseInt as (projectAction_v1 parseInt a s)"

text \<open>
  The same in the root variant, where the edit form submits the whole project it was
  opened with: the page keeps it in \<open>editingProject\<close>, set by the edit button of a row
  (the row at index \<open>i\<close> of the list) and cleared by \<open>onClose\<close>.
\<close>

datatype project_action =
  SubmitAdd string ProjectModal
| EditClicked nat
| SubmitEdit ProjectModal
| Delete string
| Increment string
| Decrement string

fun projectAction :: "project_action \<Rightarrow> store \<times> Project option \<Rightarrow> store \<times> Project option"
  where
  "projectAction (SubmitAdd newId f) (s, editingProject) =
     (snd (addProjectSubmit newId (f, s)), editingProject)"
| "projectAction (EditClicked i) (s, editingProject) =
     (s, if i < length (projects s) then Some (projects s ! i) else editingProject)"
| "projectAction (SubmitEdit f) (s, editingProject) =
     (snd (editProjectSubmit editingProject (f, s)),
      if editingProject = None \<or> p_name f = [] then editingProject else None)"
| "projectAction (Delete pid) (s, editingProject) = (deleteProject pid s, editingProject)"
| "projectAction (Increment pid) (s, editingProject) =
     (incrementProjectCount pid s, editingProject)"
| "projectAction (Decrement pid) (s, editingProject) =
     (decrementProjectCount pid s, editingProject)"

fun projectActions ::
  "project_action list \<Rightarrow> store \<times> Project option \<Rightarrow> store \<times> Project option" where
  "projectActions [] page = page"
| "projectActions (a # as) page = projectActions as (projectAction a page)"

section \<open>Sample inputs\<close>

text \<open>
  A column 120 pixels high whose measured content is 1250 pixels high, and a column
  60 pixels high that shows a list twice (200 pixels in all) for the continuous scroll.
\<close>

definition pagedColumn :: container where
  "pagedColumn = \<lparr>clientHeight = 120, scrollHeight = 1250, scrollTop = 0, contentMeasure = Some 1250\<rparr>"

definition scrollColumn :: container where
  "scrollColumn = \<lparr>clientHeight = 60, scrollHeight = 200, scrollTop = 0, contentMeasure = Some 200\<rparr>"

definition bareColumn :: container where
  "bareColumn = \<lparr>clientHeight = 30, scrollHeight = 30, scrollTop = 0, contentMeasure = None\<rparr>"

definition fadeSettings :: hook_settings where
  "fadeSettings = \<lparr>transitionStyle = Fade, transitionSpeed = ''custom'',
                    smoothScrollEnabled = True, customTransitionSeconds = 7\<rparr>"

definition gentleSettings :: hook_settings where
  "gentleSettings = \<lparr>transitionStyle = GentleContinuousScroll, transitionSpeed = ''normal'',
                      smoothScrollEnabled = True, customTransitionSeconds = 3\<rparr>"

text \<open>
  The hook of the first column after \<open>checkOverflow\<close> for 25 items of height 50, and
  the hook of the second after \<open>checkOverflow\<close> and the scroll effect for 4 items.
\<close>

definition pagedHook :: hook where
  "pagedHook = checkOverflow 25 50 (initialHook (Some pagedColumn))"

definition scrollHook :: hook where
  "scrollHook =
     scrollEffect gentleSettings 50 (checkOverflow 4 50 (initialHook (Some scrollColumn)))"

text \<open>
  A column 120 pixels high with rows 90 pixels high: with all 25 rows shown its content
  measures 2250 pixels, with one page of two rows 180 pixels; then the same page when the
  column has been resized to 160 pixels. \<open>pagingColumn\<close> is that column mounted with the
  \<open>fade\<close> style, 25 items and the item height 50, after its first overflow check: it
  pages through 13 pages of two items.
\<close>

definition tallColumn :: container where
  "tallColumn = \<lparr>clientHeight = 120, scrollHeight = 2250, scrollTop = 0, contentMeasure = Some 2250\<rparr>"

definition tallPage :: container where
  "tallPage = \<lparr>clientHeight = 120, scrollHeight = 180, scrollTop = 0, contentMeasure = Some 180\<rparr>"

definition resizedPage :: container where
  "resizedPage = \<lparr>clientHeight = 160, scrollHeight = 180, scrollTop = 0, contentMeasure = Some 180\<rparr>"

definition pagingColumn :: component where
  "pagingColumn = hookRun [Measured tallColumn] (mountHook tallColumn fadeSettings 25 50)"

text \<open>
  That column after three pages, when a 26th item has been added and the overflow check
  requested by the change has run; and that column after ten pages, when it has been
  resized.
\<close>

definition grownColumn :: component where
  "grownColumn =
     hookRun [IntervalFired, IntervalFired, IntervalFired,
              Rendered fadeSettings 26 50, Measured tallPage] pagingColumn"

definition resizedColumn :: component where
  "resizedColumn = hookRun (replicate 10 IntervalFired @ [Measured resizedPage]) pagingColumn"

text \<open>An event of 2 January 2024 at 09:00, and a clock on that day.\<close>

definition reviewAt9 :: ScheduleEvent where
  "reviewAt9 = \<lparr>event_id = ''1'', title = ''Review'', dateStarted = ''2024-01-02'',
      timeStart = ''09:00'', timeEnd = ''10:00'', details = None, dateEnd = ''2024-01-02''\<rparr>"

definition clockAt :: "string \<Rightarrow> int \<Rightarrow> clock" where
  "clockAt hhmm ms = \<lparr>today = ''2024-01-02'', currentTime = hhmm, msOfDay = ms\<rparr>"

text \<open>The same event, with the same id, at 10:00.\<close>

definition reviewAt10 :: ScheduleEvent where
  "reviewAt10 = \<lparr>event_id = ''1'', title = ''Review'', dateStarted = ''2024-01-02'',
      timeStart = ''10:00'', timeEnd = ''11:00'', details = None, dateEnd = ''2024-01-02''\<rparr>"

text \<open>The event at 09:00 with the empty string as its id.\<close>

definition unnamedAt9 :: ScheduleEvent where
  "unnamedAt9 = \<lparr>event_id = [], title = ''Review'', dateStarted = ''2024-01-02'',
      timeStart = ''09:00'', timeEnd = ''10:00'', details = None, dateEnd = ''2024-01-02''\<rparr>"




definition standup_v1 :: ScheduleEvent_v1 where
  "standup_v1 = \<lparr>event_id = ''e1'', title = ''Stand-up'', dateStarted = ''2024-01-02'',
                  timeStart = ''09:00'', timeEnd = ''09:30'', details = None,
                  createdAt = ''2024-01-01T08:00:00.000Z''\<rparr>"

definition website_v1 :: Project_v1 where
  "website_v1 = \<lparr>project_id = ''p1'', project_name = ''Website'', number = 0,
                  project_createdAt = ''2024-01-01T08:00:00.000Z''\<rparr>"

definition mobile_v1 :: Project_v1 where
  "mobile_v1 = \<lparr>project_id = ''p2'', project_name = ''Mobile'', number = 2,
                 project_createdAt = ''2024-01-01T08:00:00.000Z''\<rparr>"

definition localStore_v1 :: store_v1 where
  "localStore_v1 = \<lparr>events_v1 = [standup_v1], personnelStatuses = [],
                     projects_v1 = [website_v1, mobile_v1],
                     settings_v1 = defaultSettings_v1, hasHydrated_v1 = True,
                     saveTimeout = False, syncInterval_v1 = True, lastServerUpdate = []\<rparr>"

text \<open>
  A store of the root variant with two projects, and nothing being edited; then the
  document the server holds when that store has been saved.
\<close>

definition website :: Project where
  "website = \<lparr>project_id = ''p1'', project_name = ''Website'', count = 0\<rparr>"

definition mobile :: Project where
  "mobile = \<lparr>project_id = ''p2'', project_name = ''Mobile'', count = 2\<rparr>"

definition localStore :: store where
  "localStore = \<lparr>events = [], personnel = [], projects = [website, mobile],
                  settings = defaultSettings, hasHydrated = True, syncInterval = True\<rparr>"



text \<open>
  The add-event form of either variant, filled in with a title, start 09:00 and end 08:00,
  not all-day.
\<close>

definition lateForm_v1 :: AddEventModal_v1 where
  "lateForm_v1 = \<lparr>m_title = ''Review'', m_dateStarted = ''2024-01-02'', m_timeStart = ''09:00'',
                   m_timeEnd = ''08:00'', m_details = [], m_isAllDay = False, m_error = [],
                   m_isSubmitting = False\<rparr>"

definition lateForm :: AddEventModal where
  "lateForm = \<lparr>a_title = ''Review'', a_dateStarted = ''2024-01-02'', a_dateEnd = ''2024-01-02'',
                a_timeStart = ''09:00'', a_timeEnd = ''08:00'', a_details = [], a_open = True\<rparr>"

section \<open>Notions used in the statements\<close>

text \<open>
  The time a frame at \<open>timestamp\<close> takes as elapsed since the last frame: nothing on the
  first frame after a setup or cleanup (\<open>lastTimeRef\<close> is 0 then), else the difference of
  the timestamps.
\<close>

definition elapsed :: "rat \<Rightarrow> hook \<Rightarrow> rat" where
  "elapsed timestamp h = (if lastTimeRef h = 0 then 0 else timestamp - lastTimeRef h)"

text \<open>
  The milliseconds from \<open>now\<close> to the start of an event of today, when its start time
  parses.
\<close>

definition msUntilStart :: "clock \<Rightarrow> 'a ScheduleEvent_base_scheme \<Rightarrow> int option" where
  "msUntilStart now event =
     (case parseTime (timeStart event) of
        None \<Rightarrow> None
      | Some (hours, minutes) \<Rightarrow> Some (hours * 3600000 + minutes * 60000 - msOfDay now))"

definition notifiedIds :: "('a ScheduleEvent_base_scheme) notifier \<Rightarrow> string set" where
  "notifiedIds st = set (map (\<lambda>n. event_id (n_event n)) (activeNotifications st))"

text \<open>
  The effect is in step with the dismissed set: the \<open>dismissedKey\<close> it last ran with is
  the key of the current set; while its interval is set, the set its callback has captured
  holds every non-empty id of the current set; and the captured set is part of the current
  one.
\<close>

definition effectInSync :: "('a ScheduleEvent_base_scheme) notifier \<Rightarrow> bool" where
  "effectInSync st =
     ((case effectDeps st of
         None \<Rightarrow> \<not> checkInterval st
       | Some (todayEventsKey, dismissedKey, hydrated) \<Rightarrow>
           dismissedKey = joinComma (dismissedNotifications st))
      \<and> (checkInterval st \<longrightarrow>
            set (dismissedNotifications st) - {[]} \<subseteq> set (capturedDismissed st))
      \<and> set (capturedDismissed st) \<subseteq> set (dismissedNotifications st))"

text \<open>An id is dismissed, not notified, and the effect is in step.\<close>

definition staysDismissed :: "string \<Rightarrow> ('a ScheduleEvent_base_scheme) notifier \<Rightarrow> bool" where
  "staysDismissed eventId st =
     (effectInSync st \<and> eventId \<in> set (dismissedNotifications st) \<and> eventId \<notin> notifiedIds st)"

text \<open>Every counter of the store is at least 0 (in the root variant, so is the counter of
  the project being edited).\<close>

definition countersNonNegative_v1 :: "store_v1 \<Rightarrow> bool" where
  "countersNonNegative_v1 s = (\<forall>p \<in> set (projects_v1 s). 0 \<le> number p)"

definition countersNonNegative :: "store \<times> Project option \<Rightarrow> bool" where
  "countersNonNegative page =
     (case page of (s, editingProject) \<Rightarrow>
        (\<forall>p \<in> set (projects s). 0 \<le> count p)
        \<and> (case editingProject of None \<Rightarrow> True | Some p \<Rightarrow> 0 \<le> count p))"

section \<open>Theorems\<close>

subsection \<open>Speed tiers\<close>

text \<open>
  Claim C3. The page-dwell interval is 8000, 5000, 3000 and 1500 milliseconds for the
  tiers very slow, slow, normal and fast, and 3000 milliseconds for the custom tier
  whatever \<open>customTransitionSeconds\<close> holds; the pagination effect, when it installs an
  interval at all, installs it with that period. The enter animation lasts 1.5, 1, 0.5 and
  0.25 seconds for the four tiers and the configured seconds for the custom tier, and in
  each of the three paged styles the exit animation lasts half the enter animation.
\<close>

theorem speed_tier_durations:
  "(paginationEffect st n h = h
    \<or> intervalRef (paginationEffect st n h)
        = Some (PagedInterval (getPageDisplayDuration (transitionSpeed st)) (totalPages n h)))
   \<and> getPageDisplayDuration ''verySlow'' = 8000
   \<and> getPageDisplayDuration ''slow'' = 5000
   \<and> getPageDisplayDuration ''normal'' = 3000
   \<and> getPageDisplayDuration ''fast'' = 1500
   \<and> getPageDisplayDuration
         (transitionSpeed (st\<lparr>transitionSpeed := ''custom'', customTransitionSeconds := cs\<rparr>)) = 3000
   \<and> getTransitionSpeed ''verySlow'' cs = 3 / 2
   \<and> getTransitionSpeed ''slow'' cs = 1
   \<and> getTransitionSpeed ''normal'' cs = 1 / 2
   \<and> getTransitionSpeed ''fast'' cs = 1 / 4
   \<and> getTransitionSpeed ''custom'' cs = cs
   \<and> kf_duration (v_animate (getTransitionVariants Fade (getTransitionSpeed sp cs)))
         = Some (getTransitionSpeed sp cs)
   \<and> kf_duration (v_exit (getTransitionVariants Fade (getTransitionSpeed sp cs)))
         = Some (getTransitionSpeed sp cs / 2)
   \<and> kf_duration (v_animate (getTransitionVariants SlideUp (getTransitionSpeed sp cs)))
         = Some (getTransitionSpeed sp cs)
   \<and> kf_duration (v_exit (getTransitionVariants SlideUp (getTransitionSpeed sp cs)))
         = Some (getTransitionSpeed sp cs / 2)
   \<and> kf_duration (v_animate (getTransitionVariants SlideLeft (getTransitionSpeed sp cs)))
         = Some (getTransitionSpeed sp cs)
   \<and> kf_duration (v_exit (getTransitionVariants SlideLeft (getTransitionSpeed sp cs)))
         = Some (getTransitionSpeed sp cs / 2)"
  by (simp add: getPageDisplayDuration_def getTransitionSpeed_def paginationEffect_def)

subsection \<open>Event status\<close>

text \<open>
  Claim C10. \<open>getEventStatus\<close> answers \<open>upcoming\<close> for every event whose start date is
  not the current date, whether that date is past or future, and the row is drawn in the
  \<open>upcoming\<close> colour; the answers \<open>ongoing\<close> and \<open>completed\<close> are given only to events
  that start today.
\<close>

theorem status_of_other_days:
  "(dateStarted event \<noteq> today now \<longrightarrow>
      getEventStatus now event = Upcoming
      \<and> rowStatusColor colors now event = upcoming colors)
   \<and> (getEventStatus now event = Ongoing \<or> getEventStatus now event = Completed \<longrightarrow>
        dateStarted event = today now)"
  by (simp add: getEventStatus_def rowStatusColor_def)

theorem status_of_other_days_witness:
  "getEventStatus \<lparr>today = ''2024-01-02'', currentTime = ''09:30'', msOfDay = 34200000\<rparr>
     \<lparr>event_id = ''1'', title = ''Review'', dateStarted = ''2024-01-01'',
      timeStart = ''09:00'', timeEnd = ''10:00'', details = None, dateEnd = ''2024-01-01''\<rparr>
     = Upcoming
   \<and> rowStatusColor \<lparr>upcoming = ''#3b82f6'', ongoing = ''#22c55e'', completed = ''#6b7280''\<rparr>
       \<lparr>today = ''2024-01-02'', currentTime = ''09:30'', msOfDay = 34200000\<rparr>
       \<lparr>event_id = ''1'', title = ''Review'', dateStarted = ''2024-01-01'',
        timeStart = ''09:00'', timeEnd = ''10:00'', details = None, dateEnd = ''2024-01-01''\<rparr>
     = ''#3b82f6''
   \<and> getEventStatus \<lparr>today = ''2024-01-02'', currentTime = ''09:30'', msOfDay = 34200000\<rparr>
       \<lparr>event_id = ''2'', title = ''Stand-up'', dateStarted = ''2024-01-02'',
        timeStart = ''09:00'', timeEnd = ''10:00'', details = None, dateEnd = ''2024-01-02''\<rparr>
     = Ongoing"
  using status_of_other_days
    [of "\<lparr>event_id = ''1'', title = ''Review'', dateStarted = ''2024-01-01'',
          timeStart = ''09:00'', timeEnd = ''10:00'', details = None, dateEnd = ''2024-01-01''\<rparr>"
        "\<lparr>today = ''2024-01-02'', currentTime = ''09:30'', msOfDay = 34200000\<rparr>"
        "\<lparr>upcoming = ''#3b82f6'', ongoing = ''#22c55e'', completed = ''#6b7280''\<rparr>"]
  by (simp add: getEventStatus_def)

subsection \<open>Overflow detection\<close>

lemma checkOverflow_itemsPerPage:
  "containerRef h = Some c \<Longrightarrow>
   itemsPerPage (checkOverflow n ih h) = max 1 \<lfloor>(of_int (clientHeight c) :: rat) / of_int ih\<rfloor>"
  by (simp add: checkOverflow_def Let_def split: option.splits)

lemma checkOverflow_keeps_itemsPerPage_positive:
  "1 \<le> itemsPerPage h \<Longrightarrow> 1 \<le> itemsPerPage (checkOverflow n ih h)"
  by (simp add: checkOverflow_def Let_def split: option.splits)

lemma floor_quotient_below_one:
  "0 < ih \<Longrightarrow> ch < ih \<Longrightarrow> \<lfloor>(of_int ch :: rat) / of_int ih\<rfloor> < 1"
  by (simp add: floor_less_iff)

text \<open>
  Claim C5. With a container present and a positive item height, \<open>checkOverflow\<close> sets
  \<open>itemsPerPage\<close> to the larger of 1 and the floor of container height over item height;
  so it is at least 1, and it is 1 when the container is lower than one item. The hook
  starts with \<open>itemsPerPage\<close> at least 1, and \<open>checkOverflow\<close> keeps it so, with or
  without a container.
\<close>

theorem itemsPerPage_formula:
  assumes "containerRef h = Some c" and "0 < itemHeight"
  shows "itemsPerPage (checkOverflow itemsLength itemHeight h)
           = max 1 \<lfloor>(of_int (clientHeight c) :: rat) / of_int itemHeight\<rfloor>
         \<and> 1 \<le> itemsPerPage (checkOverflow itemsLength itemHeight h)
         \<and> (clientHeight c < itemHeight \<longrightarrow>
              itemsPerPage (checkOverflow itemsLength itemHeight h) = 1)
         \<and> 1 \<le> itemsPerPage (initialHook c')
         \<and> (1 \<le> itemsPerPage h' \<longrightarrow>
              1 \<le> itemsPerPage (checkOverflow itemsLength itemHeight h'))"
proof -
  have eq: "itemsPerPage (checkOverflow itemsLength itemHeight h)
              = max 1 \<lfloor>(of_int (clientHeight c) :: rat) / of_int itemHeight\<rfloor>"
    using assms(1) by (rule checkOverflow_itemsPerPage)
  have small: "clientHeight c < itemHeight \<longrightarrow>
                 itemsPerPage (checkOverflow itemsLength itemHeight h) = 1"
    using floor_quotient_below_one [OF assms(2)] eq by fastforce
  have start: "1 \<le> itemsPerPage (initialHook c')"
    by (simp add: initialHook_def)
  have kept: "1 \<le> itemsPerPage h' \<longrightarrow>
                1 \<le> itemsPerPage (checkOverflow itemsLength itemHeight h')"
    by (simp add: checkOverflow_keeps_itemsPerPage_positive)
  from eq small start kept show ?thesis by simp
qed

theorem itemsPerPage_formula_witness:
  "itemsPerPage (checkOverflow 3 50 (initialHook (Some bareColumn))) = 1
   \<and> itemsPerPage (checkOverflow 25 50 (initialHook (Some pagedColumn))) = 2"
proof -
  have small: "itemsPerPage (checkOverflow 3 50 (initialHook (Some bareColumn))) = 1"
    using itemsPerPage_formula [of "initialHook (Some bareColumn)" bareColumn 50 3]
    by (simp add: initialHook_def bareColumn_def)
  have two: "max 1 \<lfloor>(of_int (clientHeight pagedColumn) :: rat) / of_int 50\<rfloor> = 2"
    by code_simp
  have large: "itemsPerPage (checkOverflow 25 50 (initialHook (Some pagedColumn))) = 2"
    using itemsPerPage_formula [of "initialHook (Some pagedColumn)" pagedColumn 50 25] two
    by (simp add: initialHook_def)
  from small large show ?thesis by simp
qed

text \<open>
  Claim C6. With a container present, \<open>checkOverflow\<close> sets \<open>hasOverflow\<close> as follows:
  when the node marked \<open>data-content-measure\<close> is there, to whether its measured height
  exceeds the container's visible height; when it is not, to whether the item count times
  the item height exceeds the visible height less 12 pixels.
\<close>

theorem hasOverflow_rule:
  assumes "containerRef h = Some c"
  shows "hasOverflow (checkOverflow itemsLength itemHeight h)
           = (case contentMeasure c of
                Some actualContentHeight \<Rightarrow> actualContentHeight > clientHeight c
              | None \<Rightarrow> itemsLength * itemHeight > clientHeight c - 12)"
  using assms by (simp add: checkOverflow_def Let_def split: option.splits)

theorem hasOverflow_rule_witness:
  "hasOverflow (checkOverflow 3 50 (initialHook (Some bareColumn)))
   \<and> hasOverflow (checkOverflow 25 50 (initialHook (Some pagedColumn)))
   \<and> \<not> hasOverflow (checkOverflow 0 50 (initialHook (Some bareColumn)))"
  using hasOverflow_rule [of "initialHook (Some bareColumn)" bareColumn 3 50]
        hasOverflow_rule [of "initialHook (Some pagedColumn)" pagedColumn 25 50]
        hasOverflow_rule [of "initialHook (Some bareColumn)" bareColumn 0 50]
  by (simp add: initialHook_def bareColumn_def pagedColumn_def)

subsection \<open>Paged mode\<close>

lemma paginationEffect_installed:
  assumes "hasOverflow h" and "isPaged (transitionStyle st)" and "1 < totalPages n h"
  shows "paginationEffect st n h =
          (cleanupAnimations h)\<lparr>isAnimatingRef := True,
              intervalRef := Some (PagedInterval (getPageDisplayDuration (transitionSpeed st))
                                     (totalPages n h))\<rparr>"
  using assms by (auto simp: paginationEffect_def isPaged_def)

lemma paginationEffect_currentPage: "currentPage (paginationEffect st n h) = currentPage h"
  by (simp add: paginationEffect_def cleanupAnimations_def)

lemma intervalTick_paged:
  "intervalRef h = Some (PagedInterval d tp) \<Longrightarrow> isAnimatingRef h \<Longrightarrow>
   intervalTick h = h\<lparr>currentPage := (currentPage h + 1) mod tp\<rparr>"
  by (simp add: intervalTick_def pagedTick_def)

text \<open>Any number of ticks, by induction on their number.\<close>

lemma intervalTicks_paged:
  assumes "intervalRef h = Some (PagedInterval d tp)" and "isAnimatingRef h"
    and "0 \<le> currentPage h" and "currentPage h < tp"
  shows "(intervalTick ^^ k) h = h\<lparr>currentPage := (currentPage h + int k) mod tp\<rparr>"
proof (induction k)
  case 0
  from assms(3,4) show ?case by simp
next
  case (Suc k)
  have "intervalTick ((intervalTick ^^ k) h)
          = h\<lparr>currentPage := ((currentPage h + int k) mod tp + 1) mod tp\<rparr>"
    unfolding Suc.IH using assms(1,2) by (simp add: intervalTick_paged)
  moreover have "((currentPage h + int k) mod tp + 1) mod tp
                   = (currentPage h + int (Suc k)) mod tp"
    by (simp add: mod_simps algebra_simps)
  ultimately show ?case by simp
qed

text \<open>
  The list-length reset is the last effect of a commit: after a commit in which the
  length of the list has changed (and after the first commit) no interval and no frame is
  left, whatever the effects before it have set up.
\<close>

lemma commitEffects_length_changed:
  assumes "depsChanged dep_length c"
  shows "intervalRef (hookState (commitEffects c)) = None
         \<and> animationRef (hookState (commitEffects c)) = None
         \<and> \<not> isAnimatingRef (hookState (commitEffects c))
         \<and> currentPage (hookState (commitEffects c)) = 0"
  using assms
  by (simp add: commitEffects_def Let_def itemsResetEffect_def resetScroll_def
      cleanupAnimations_def)

lemma intervalTick_no_interval: "intervalRef h = None \<Longrightarrow> intervalTick h = h"
  by (simp add: intervalTick_def)

text \<open>
  Claim C2 describes what the paging is meant to do, and the hook departs from it on two
  runs of a column that pages through 13 pages of two items, one page every 3 seconds.

  When a 26th item is added on page 3, the page goes back to 0, as the claim says; but the
  reset effect, which runs after the pagination effect, has cleared the interval, and
  nothing sets it up again: the column is in paged mode with overflow and 13 pages, no
  interval is left, and the page stays 0.

  When the column is resized on page 10 so that three items fit, there are 9 pages and a
  new interval for them, but the page is still 10: the slice shown is empty, and the next
  tick goes to page 2.
\<close>

theorem paged_cycle_breaks:
  "intervalRef (hookState pagingColumn) = Some (PagedInterval 3000 13)
   \<and> currentPage (hookState (hookRun [IntervalFired, IntervalFired, IntervalFired] pagingColumn))
        = 3
   \<and> isPaged (transitionStyle (settingsProp grownColumn))
   \<and> hasOverflow (hookState grownColumn)
   \<and> totalPages (itemsLengthProp grownColumn) (hookState grownColumn) = 13
   \<and> currentPage (hookState grownColumn) = 0
   \<and> intervalRef (hookState grownColumn) = None
   \<and> hookRun [IntervalFired] grownColumn = grownColumn
   \<and> isPaged (transitionStyle (settingsProp resizedColumn))
   \<and> hasOverflow (hookState resizedColumn)
   \<and> totalPages (itemsLengthProp resizedColumn) (hookState resizedColumn) = 9
   \<and> intervalRef (hookState resizedColumn) = Some (PagedInterval 3000 9)
   \<and> currentPage (hookState resizedColumn) = 10
   \<and> currentItems fadeSettings [0 ..< 25] (hookState resizedColumn) = []
   \<and> currentPage (hookState (hookRun [IntervalFired] resizedColumn)) = 2"
  by code_simp

subsection \<open>Continuous gentle scroll\<close>

lemma animationFrame_position:
  assumes "animationRef h = Some (GentleAnimation scrollSpeed singleSetHeight)"
    and "isAnimatingRef h"
  shows "scrollPositionRef (animationFrame timestamp h)
           = (let advanced = scrollPositionRef h + scrollSpeed * elapsed timestamp h / 1000
              in if advanced \<ge> singleSetHeight then advanced - singleSetHeight else advanced)"
  using assms by (simp add: animationFrame_def animate_def elapsed_def Let_def)

text \<open>
  Claim C4, as stated, fails: the frame callback subtracts \<open>singleSetHeight\<close> at most once.
  A column whose doubled list is 200 pixels high has \<open>singleSetHeight = 100\<close>; at the normal
  tier (40 pixels per second) a frame at 1000 ms followed by a frame at 7000 ms, as after the
  page was in the background for six seconds, leaves the offset at 140.
\<close>

theorem gentle_scroll_offset_escapes:
  "animationRef (animationFrame 1000 scrollHook) = Some (GentleAnimation 40 100)
   \<and> scrollPositionRef (animationFrame 1000 scrollHook) = 0
   \<and> scrollPositionRef (animationFrame 7000 (animationFrame 1000 scrollHook)) = 140
   \<and> \<not> scrollPositionRef (animationFrame 7000 (animationFrame 1000 scrollHook)) < 100"
  by code_simp

text \<open>
  Claim C4, amended. Each frame advances the offset by \<open>scrollSpeed * elapsed / 1000\<close> and,
  when the result reaches \<open>singleSetHeight\<close>, subtracts \<open>singleSetHeight\<close> once, exactly.
  If the offset was in \<open>[0, singleSetHeight)\<close> before the frame and the advance of this one
  frame is less than \<open>singleSetHeight\<close>, the offset is in \<open>[0, singleSetHeight)\<close> after it.
\<close>

theorem gentle_scroll_frame:
  assumes "animationRef h = Some (GentleAnimation scrollSpeed singleSetHeight)"
    and "isAnimatingRef h"
    and "0 \<le> scrollPositionRef h" and "scrollPositionRef h < singleSetHeight"
    and "0 \<le> scrollSpeed" and "lastTimeRef h \<le> timestamp"
    and "scrollSpeed * elapsed timestamp h / 1000 < singleSetHeight"
  shows "scrollPositionRef (animationFrame timestamp h)
           = (let advanced = scrollPositionRef h + scrollSpeed * elapsed timestamp h / 1000
              in if advanced \<ge> singleSetHeight then advanced - singleSetHeight else advanced)
         \<and> 0 \<le> scrollPositionRef (animationFrame timestamp h)
         \<and> scrollPositionRef (animationFrame timestamp h) < singleSetHeight"
proof -
  let ?adv = "scrollSpeed * elapsed timestamp h / 1000"
  have pos: "scrollPositionRef (animationFrame timestamp h)
           = (let advanced = scrollPositionRef h + ?adv
              in if advanced \<ge> singleSetHeight then advanced - singleSetHeight else advanced)"
    using assms(1,2) by (rule animationFrame_position)
  have "0 \<le> elapsed timestamp h"
    using assms(6) by (simp add: elapsed_def)
  with assms(5) have nonneg: "0 \<le> ?adv" by simp
  from pos nonneg assms(3,4,7) show ?thesis
    by (auto simp: Let_def)
qed

theorem gentle_scroll_frame_witness:
  "scrollPositionRef (animationFrame 3000 (animationFrame 1000 scrollHook)) = 80
   \<and> scrollPositionRef
        (animationFrame 4000 (animationFrame 3000 (animationFrame 1000 scrollHook))) = 20"
proof -
  let ?h1 = "animationFrame 1000 scrollHook"
  let ?h2 = "animationFrame 3000 ?h1"
  have e1: "?h1 = \<lparr>currentPage = 0, hasOverflow = True, itemsPerPage = 1, scrollPositionRef = 0,
      animationRef = Some (GentleAnimation 40 100), lastTimeRef = 1000, intervalRef = None,
      isAnimatingRef = True, containerRef = Some scrollColumn\<rparr>"
    by code_simp
  have e2: "?h2 = \<lparr>currentPage = 0, hasOverflow = True, itemsPerPage = 1, scrollPositionRef = 80,
      animationRef = Some (GentleAnimation 40 100), lastTimeRef = 3000, intervalRef = None,
      isAnimatingRef = True, containerRef = Some (scrollColumn\<lparr>scrollTop := 80\<rparr>)\<rparr>"
    by code_simp
  have s1: "scrollPositionRef ?h2 = 80"
    using gentle_scroll_frame [of ?h1 40 100 3000] by (simp add: e1 elapsed_def)
  have s2: "scrollPositionRef (animationFrame 4000 ?h2) = 20"
    using gentle_scroll_frame [of ?h2 40 100 4000] by (simp add: e2 elapsed_def)
  from s1 s2 show ?thesis by simp
qed

subsection \<open>Notifications\<close>

lemma differenceInMinutes_window:
  "(0 < differenceInMinutes a b \<and> differenceInMinutes a b \<le> 5) = (60000 \<le> a - b \<and> a - b < 360000)"
  by (auto simp: differenceInMinutes_def Let_def)

lemma differenceInMinutes_nonneg:
  "0 \<le> a - b \<Longrightarrow> differenceInMinutes a b = (a - b) div 60000"
  by (simp add: differenceInMinutes_def Let_def)

lemma upcomingNotification_Some:
  "upcomingNotification now 5 e = Some n \<longleftrightarrow>
     dateStarted e = today now \<and> n_event n = e
     \<and> (case msUntilStart now e of
           None \<Rightarrow> False
         | Some d \<Rightarrow> 60000 \<le> d \<and> d < 360000 \<and> minutesUntil n = d div 60000)"
proof (cases "dateStarted e = today now")
  case False
  then show ?thesis by (simp add: upcomingNotification_def)
next
  case True
  show ?thesis
  proof (cases "parseTime (timeStart e)")
    case None
    then show ?thesis by (simp add: upcomingNotification_def msUntilStart_def True)
  next
    case (Some hm)
    obtain hours minutes where hm: "hm = (hours, minutes)" by (cases hm)
    let ?d = "hours * 3600000 + minutes * 60000 - msOfDay now"
    have w: "(0 < differenceInMinutes (hours * 3600000 + minutes * 60000) (msOfDay now)
              \<and> differenceInMinutes (hours * 3600000 + minutes * 60000) (msOfDay now) \<le> 5)
             = (60000 \<le> ?d \<and> ?d < 360000)"
      by (rule differenceInMinutes_window)
    show ?thesis
    proof (cases "60000 \<le> ?d \<and> ?d < 360000")
      case False
      with w show ?thesis
        by (auto simp: upcomingNotification_def msUntilStart_def True Some hm Let_def)
    next
      case in_window: True
      then have v: "differenceInMinutes (hours * 3600000 + minutes * 60000) (msOfDay now) = ?d div 60000"
        by (intro differenceInMinutes_nonneg) simp
      from in_window w show ?thesis
        by (cases n) (auto simp: upcomingNotification_def msUntilStart_def True Some hm Let_def v)
    qed
  qed
qed

lemma set_upcomingLoop:
  "set (upcomingLoop now mb es) = {n. \<exists>e \<in> set es. upcomingNotification now mb e = Some n}"
  by (induction es) (auto split: option.splits)

lemma set_getUpcomingEvents:
  "set (getUpcomingEvents now es mb) = {n. \<exists>e \<in> set es. upcomingNotification now mb e = Some n}"
  by (simp add: getUpcomingEvents_def set_upcomingLoop)

lemma activeNotifications_check:
  "set (activeNotifications (checkNotifications now st))
     = {n \<in> set (getUpcomingEvents now (capturedTodayEvents st) 5).
          event_id (n_event n) \<notin> set (capturedDismissed st)}"
  by (simp add: checkNotifications_def Let_def)

lemma check_window:
  "n \<in> set (activeNotifications (checkNotifications now st)) \<longleftrightarrow>
      n_event n \<in> set (capturedTodayEvents st)
      \<and> dateStarted (n_event n) = today now
      \<and> event_id (n_event n) \<notin> set (capturedDismissed st)
      \<and> (case msUntilStart now (n_event n) of
            None \<Rightarrow> False
          | Some d \<Rightarrow> 60000 \<le> d \<and> d < 360000 \<and> minutesUntil n = d div 60000)"
  by (auto simp: activeNotifications_check set_getUpcomingEvents upcomingNotification_Some)

lemma checkNotifications_other_fields [simp]:
  "dismissedNotifications (checkNotifications now st) = dismissedNotifications st"
  "effectDeps (checkNotifications now st) = effectDeps st"
  "capturedDismissed (checkNotifications now st) = capturedDismissed st"
  "capturedTodayEvents (checkNotifications now st) = capturedTodayEvents st"
  "checkInterval (checkNotifications now st) = checkInterval st"
  by (simp_all add: checkNotifications_def Let_def)

lemma joinComma_snoc:
  "xs \<noteq> [] \<Longrightarrow> joinComma (xs @ [x]) = joinComma xs @ '','' @ x"
  by (induction xs rule: joinComma.induct) simp_all

lemma joinComma_snoc_same:
  assumes "joinComma (xs @ [x]) = joinComma xs"
  shows "xs = [] \<and> x = []"
proof (cases xs)
  case Nil
  with assms show ?thesis by simp
next
  case (Cons y ys)
  then have "joinComma (xs @ [x]) = joinComma xs @ '','' @ x"
    by (intro joinComma_snoc) simp
  with assms have "length (joinComma xs) = length (joinComma xs @ '','' @ x)" by simp
  then show ?thesis by simp
qed

lemma effectInSync_initial: "effectInSync initialNotifier"
  by (simp add: effectInSync_def initialNotifier_def)

lemma notificationEffect_inSync:
  assumes "effectDeps st = Some (joinComma (map event_id (todayEvents now evs)),
                                 joinComma (dismissedNotifications st), hy)
           \<longrightarrow> checkInterval st
           \<longrightarrow> set (dismissedNotifications st) - {[]} \<subseteq> set (capturedDismissed st)"
    and "set (capturedDismissed st) \<subseteq> set (dismissedNotifications st)"
  shows "effectInSync (notificationEffect now evs hy st)"
  using assms
  by (auto simp: effectInSync_def notificationEffect_def Let_def)

lemma dismiss_keeps_nonempty:
  assumes "joinComma (dismissedNotifications (dismissNotification i st))
             = joinComma (dismissedNotifications st)"
  shows "set (dismissedNotifications (dismissNotification i st)) - {[]}
           = set (dismissedNotifications st) - {[]}"
proof (cases "i \<in> set (dismissedNotifications st)")
  case True
  then show ?thesis by (simp add: dismissNotification_def)
next
  case False
  with assms have "joinComma (dismissedNotifications st @ [i]) = joinComma (dismissedNotifications st)"
    by (simp add: dismissNotification_def)
  then have "dismissedNotifications st = [] \<and> i = []" by (rule joinComma_snoc_same)
  then show ?thesis by (simp add: dismissNotification_def)
qed

lemma dismissNotification_fields [simp]:
  "effectDeps (dismissNotification i st) = effectDeps st"
  "capturedDismissed (dismissNotification i st) = capturedDismissed st"
  "checkInterval (dismissNotification i st) = checkInterval st"
  by (simp_all add: dismissNotification_def)

lemma step_inSync:
  assumes "effectInSync st"
  shows "effectInSync (notifierStep a st)"
proof (cases a)
  case (Render now evs hy)
  show ?thesis unfolding Render notifierStep.simps
    using assms by (intro notificationEffect_inSync) (simp_all add: effectInSync_def)
next
  case (Tick now)
  with assms show ?thesis by (auto simp: effectInSync_def split: option.splits)
next
  case (Dismiss i now evs hy)
  let ?st = "dismissNotification i st"
  have "effectDeps ?st = Some (joinComma (map event_id (todayEvents now evs)),
                               joinComma (dismissedNotifications ?st), hy)
         \<longrightarrow> checkInterval ?st
         \<longrightarrow> set (dismissedNotifications ?st) - {[]} \<subseteq> set (capturedDismissed ?st)"
  proof (intro impI)
    assume d: "effectDeps ?st = Some (joinComma (map event_id (todayEvents now evs)),
                                      joinComma (dismissedNotifications ?st), hy)"
      and c: "checkInterval ?st"
    from d assms have "joinComma (dismissedNotifications ?st) = joinComma (dismissedNotifications st)"
      by (auto simp: effectInSync_def)
    then have "set (dismissedNotifications ?st) - {[]} = set (dismissedNotifications st) - {[]}"
      by (rule dismiss_keeps_nonempty)
    with assms c show "set (dismissedNotifications ?st) - {[]} \<subseteq> set (capturedDismissed ?st)"
      by (simp add: effectInSync_def)
  qed
  moreover have "set (capturedDismissed ?st) \<subseteq> set (dismissedNotifications ?st)"
    using assms by (auto simp: effectInSync_def dismissNotification_def)
  ultimately show ?thesis unfolding Dismiss notifierStep.simps
    by (rule notificationEffect_inSync)
qed

lemma run_inSync: "effectInSync st \<Longrightarrow> effectInSync (notifierRun as st)"
  by (induction as arbitrary: st) (simp_all add: step_inSync)

lemma notifiedIds_check:
  "eventId \<in> set (capturedDismissed st) \<Longrightarrow> eventId \<notin> notifiedIds (checkNotifications now st)"
  by (auto simp: notifiedIds_def activeNotifications_check)

lemma notificationEffect_keeps_dismissed:
  assumes "eventId \<in> set (dismissedNotifications st)" and "eventId \<notin> notifiedIds st"
  shows "eventId \<in> set (dismissedNotifications (notificationEffect now evs hy st))
         \<and> eventId \<notin> notifiedIds (notificationEffect now evs hy st)"
proof -
  have "eventId \<notin> notifiedIds (checkNotifications now
          (st\<lparr>effectDeps := Some (joinComma (map event_id (todayEvents now evs)),
                                  joinComma (dismissedNotifications st), hy),
              capturedTodayEvents := todayEvents now evs,
              capturedDismissed := dismissedNotifications st\<rparr>))"
    using assms(1) by (intro notifiedIds_check) simp
  then show ?thesis
    using assms by (auto simp: notificationEffect_def Let_def notifiedIds_def)
qed

lemma dismissNotification_dismisses:
  "eventId \<in> set (dismissedNotifications (dismissNotification eventId st))
   \<and> eventId \<notin> notifiedIds (dismissNotification eventId st)"
  by (auto simp: dismissNotification_def notifiedIds_def)

lemma dismissNotification_keeps_dismissed:
  assumes "eventId \<in> set (dismissedNotifications st)" and "eventId \<notin> notifiedIds st"
  shows "eventId \<in> set (dismissedNotifications (dismissNotification i st))
         \<and> eventId \<notin> notifiedIds (dismissNotification i st)"
  using assms by (auto simp: dismissNotification_def notifiedIds_def)

lemma step_staysDismissed:
  assumes "staysDismissed eventId st" and "eventId \<noteq> []"
  shows "staysDismissed eventId (notifierStep a st)"
proof -
  from assms(1) have sync: "effectInSync st"
    and d: "eventId \<in> set (dismissedNotifications st)" and n: "eventId \<notin> notifiedIds st"
    by (simp_all add: staysDismissed_def)
  have "eventId \<in> set (dismissedNotifications (notifierStep a st))
        \<and> eventId \<notin> notifiedIds (notifierStep a st)"
  proof (cases a)
    case (Render now evs hy)
    then show ?thesis using notificationEffect_keeps_dismissed [OF d n] by simp
  next
    case (Tick now)
    show ?thesis
    proof (cases "checkInterval st")
      case True
      with sync d assms(2) have "eventId \<in> set (capturedDismissed st)"
        by (auto simp: effectInSync_def)
      then have "eventId \<notin> notifiedIds (checkNotifications now st)"
        by (rule notifiedIds_check)
      with d True Tick show ?thesis by simp
    next
      case False
      with d n Tick show ?thesis by simp
    qed
  next
    case (Dismiss i now evs hy)
    from dismissNotification_keeps_dismissed [OF d n, of i]
    have "eventId \<in> set (dismissedNotifications (dismissNotification i st))"
      and "eventId \<notin> notifiedIds (dismissNotification i st)" by simp_all
    then show ?thesis unfolding Dismiss notifierStep.simps
      by (rule notificationEffect_keeps_dismissed)
  qed
  with step_inSync [OF sync] show ?thesis by (simp add: staysDismissed_def)
qed

lemma run_staysDismissed:
  "staysDismissed eventId st \<Longrightarrow> eventId \<noteq> [] \<Longrightarrow> staysDismissed eventId (notifierRun as st)"
  by (induction as arbitrary: st) (simp_all add: step_staysDismissed)

lemma notifierRun_append:
  "notifierRun (as @ bs) st = notifierRun bs (notifierRun as st)"
  by (induction as arbitrary: st) simp_all

lemma dismissed_after_session:
  assumes "eventId \<noteq> []"
  shows "eventId \<notin> notifiedIds
           (notifierRun (before @ Dismiss eventId now evs hy # after) initialNotifier)"
proof -
  let ?st = "notifierRun before initialNotifier"
  have sync: "effectInSync ?st"
    by (intro run_inSync effectInSync_initial)
  have "eventId \<in> set (dismissedNotifications (dismissNotification eventId ?st))"
    and "eventId \<notin> notifiedIds (dismissNotification eventId ?st)"
    using dismissNotification_dismisses [of eventId ?st] by simp_all
  then have "eventId \<in> set (dismissedNotifications (notifierStep (Dismiss eventId now evs hy) ?st))
    \<and> eventId \<notin> notifiedIds (notifierStep (Dismiss eventId now evs hy) ?st)"
    unfolding notifierStep.simps by (rule notificationEffect_keeps_dismissed)
  with step_inSync [OF sync, of "Dismiss eventId now evs hy"]
  have "staysDismissed eventId (notifierStep (Dismiss eventId now evs hy) ?st)"
    by (simp add: staysDismissed_def)
  then have "staysDismissed eventId (notifierRun after (notifierStep (Dismiss eventId now evs hy) ?st))"
    using assms by (rule run_staysDismissed)
  then show ?thesis by (simp add: notifierRun_append staysDismissed_def)
qed


text \<open>
  Claim C9, as stated, fails in four places. The evaluator compares whole minutes rounded
  toward zero: at 08:59:30 an event of today at 09:00 starts 30 seconds ahead, which is
  more than 0 and at most 5 minutes, yet it is not included; at 08:54:10 it starts 5
  minutes 50 seconds ahead, which is more than 5 minutes, yet it is included, with
  \<open>minutesUntil = 5\<close>. An event whose id is the empty string comes back after its
  dismissal, at the next tick: dismissing it leaves the comma-joined key of the dismissed
  set empty, so the effect is not set up again and its callback still holds the empty set.
  And an event edited in place is evaluated as it was before the edit: the effect depends
  on the ids of today's events only, so after the event with id 1 has been moved from
  10:00 to 09:00 the callback still holds the event at 10:00, and at 08:57:00, when the
  event of the store starts 3 minutes ahead, there is no notification.
\<close>

theorem notification_window_misses:
  "msUntilStart (clockAt ''08:59'' 32370000) reviewAt9 = Some 30000
   \<and> activeNotifications
        (notifierRun [Render (clockAt ''08:59'' 32370000) [reviewAt9] True] initialNotifier) = []
   \<and> msUntilStart (clockAt ''08:54'' 32050000) reviewAt9 = Some 350000
   \<and> activeNotifications
        (notifierRun [Render (clockAt ''08:54'' 32050000) [reviewAt9] True] initialNotifier)
       = [\<lparr>n_event = reviewAt9, minutesUntil = 5\<rparr>]
   \<and> activeNotifications
        (notifierRun [Render (clockAt ''08:57'' 32220000) [unnamedAt9] True,
                      Dismiss [] (clockAt ''08:57'' 32225000) [unnamedAt9] True]
           initialNotifier) = []
   \<and> activeNotifications
        (notifierRun [Render (clockAt ''08:57'' 32220000) [unnamedAt9] True,
                      Dismiss [] (clockAt ''08:57'' 32225000) [unnamedAt9] True,
                      Tick (clockAt ''08:57'' 32230000)]
           initialNotifier)
       = [\<lparr>n_event = unnamedAt9, minutesUntil = 2\<rparr>]
   \<and> event_id reviewAt10 = event_id reviewAt9
   \<and> msUntilStart (clockAt ''08:57'' 32220000) reviewAt9 = Some 180000
   \<and> capturedTodayEvents
        (notifierRun [Render (clockAt ''08:50'' 31800000) [reviewAt10] True,
                      Render (clockAt ''08:55'' 32100000) [reviewAt9] True]
           initialNotifier)
       = [reviewAt10]
   \<and> activeNotifications
        (notifierRun [Render (clockAt ''08:50'' 31800000) [reviewAt10] True,
                      Render (clockAt ''08:55'' 32100000) [reviewAt9] True,
                      Tick (clockAt ''08:57'' 32220000)]
           initialNotifier) = []"
  by code_simp

lemma todayEvents_member:
  "e \<in> set (todayEvents now evs) \<and> dateStarted e = today now
     \<longleftrightarrow> e \<in> set evs \<and> dateStarted e = today now"
  by (auto simp: todayEvents_def)

lemma tick_window:
  assumes "checkInterval st" and "effectInSync st"
    and "capturedTodayEvents st = todayEvents now evs"
    and "event_id (n_event n) \<noteq> []"
  shows "n \<in> set (activeNotifications (notifierStep (Tick now) st)) \<longleftrightarrow>
           n_event n \<in> set evs
           \<and> dateStarted (n_event n) = today now
           \<and> event_id (n_event n) \<notin> set (dismissedNotifications st)
           \<and> (case msUntilStart now (n_event n) of
                 None \<Rightarrow> False
               | Some d \<Rightarrow> 60000 \<le> d \<and> d < 360000 \<and> minutesUntil n = d div 60000)"
proof -
  from assms(1,2,4)
  have "event_id (n_event n) \<in> set (capturedDismissed st)
          \<longleftrightarrow> event_id (n_event n) \<in> set (dismissedNotifications st)"
    by (auto simp: effectInSync_def)
  then show ?thesis
    using assms(1) check_window [of n now st] todayEvents_member [of "n_event n" now evs]
    by (simp add: assms(3)) blast
qed

lemma render_window:
  assumes "effectDeps st \<noteq> Some (joinComma (map event_id (todayEvents now evs)),
                                   joinComma (dismissedNotifications st), True)"
  shows "capturedTodayEvents (notifierStep (Render now evs True) st) = todayEvents now evs
         \<and> checkInterval (notifierStep (Render now evs True) st)
         \<and> (n \<in> set (activeNotifications (notifierStep (Render now evs True) st)) \<longleftrightarrow>
              n_event n \<in> set evs
              \<and> dateStarted (n_event n) = today now
              \<and> event_id (n_event n) \<notin> set (dismissedNotifications st)
              \<and> (case msUntilStart now (n_event n) of
                    None \<Rightarrow> False
                  | Some d \<Rightarrow> 60000 \<le> d \<and> d < 360000 \<and> minutesUntil n = d div 60000))"
proof -
  let ?st = "st\<lparr>effectDeps := Some (joinComma (map event_id (todayEvents now evs)),
                                    joinComma (dismissedNotifications st), True),
                capturedTodayEvents := todayEvents now evs,
                capturedDismissed := dismissedNotifications st\<rparr>"
  have run: "notificationEffect now evs True st
               = (checkNotifications now ?st)\<lparr>checkInterval := True\<rparr>"
    using assms by (simp add: notificationEffect_def Let_def)
  have captured: "capturedTodayEvents (notificationEffect now evs True st) = todayEvents now evs"
    and interval: "checkInterval (notificationEffect now evs True st)"
    and active: "activeNotifications (notificationEffect now evs True st)
                   = activeNotifications (checkNotifications now ?st)"
    by (simp_all add: run)
  have "n \<in> set (activeNotifications (checkNotifications now ?st)) \<longleftrightarrow>
          n_event n \<in> set evs
          \<and> dateStarted (n_event n) = today now
          \<and> event_id (n_event n) \<notin> set (dismissedNotifications st)
          \<and> (case msUntilStart now (n_event n) of
                None \<Rightarrow> False
              | Some d \<Rightarrow> 60000 \<le> d \<and> d < 360000 \<and> minutesUntil n = d div 60000)"
    using check_window [of n now ?st] todayEvents_member [of "n_event n" now evs]
    by simp blast
  then show ?thesis
    by (simp add: captured interval active)
qed

text \<open>
  Claim C9, amended. A render with the store hydrated in which the ids of today's events
  or the dismissed set have changed (the first render is one, and so is the render after
  the dismissal of a non-empty id) makes the effect hold the current list of today's
  events and evaluates at once: the active notifications are then exactly the events of
  the store whose start date is the current date, whose id is not dismissed, and whose
  start time lies at least 1 minute and less than 6 minutes ahead (the difference in whole
  minutes, rounded toward zero, is between 1 and 5), each with \<open>minutesUntil\<close> equal to
  that number of whole minutes. At any point of a session of renders, ticks and dismissals
  from the mount of the page on, a tick of the interval gives the same, for the events
  with a non-empty id, as long as the list the effect holds is the current list of today's
  events. Once a non-empty id has been dismissed in a session, it is not an active
  notification at the end of the session, whatever renders, ticks and dismissals follow.
\<close>

theorem notification_window:
  "(effectDeps stR \<noteq> Some (joinComma (map event_id (todayEvents nowR evsR)),
                            joinComma (dismissedNotifications stR), True)
    \<longrightarrow>
      capturedTodayEvents (notifierStep (Render nowR evsR True) stR) = todayEvents nowR evsR
      \<and> checkInterval (notifierStep (Render nowR evsR True) stR)
      \<and> (nR \<in> set (activeNotifications (notifierStep (Render nowR evsR True) stR)) \<longleftrightarrow>
           n_event nR \<in> set evsR
           \<and> dateStarted (n_event nR) = today nowR
           \<and> event_id (n_event nR) \<notin> set (dismissedNotifications stR)
           \<and> (case msUntilStart nowR (n_event nR) of
                 None \<Rightarrow> False
               | Some d \<Rightarrow> 60000 \<le> d \<and> d < 360000 \<and> minutesUntil nR = d div 60000)))
   \<and> (checkInterval (notifierRun session initialNotifier)
        \<and> capturedTodayEvents (notifierRun session initialNotifier) = todayEvents now evs
        \<and> event_id (n_event n) \<noteq> []
      \<longrightarrow>
        (n \<in> set (activeNotifications
                    (notifierStep (Tick now) (notifierRun session initialNotifier))) \<longleftrightarrow>
           n_event n \<in> set evs
           \<and> dateStarted (n_event n) = today now
           \<and> event_id (n_event n)
               \<notin> set (dismissedNotifications (notifierRun session initialNotifier))
           \<and> (case msUntilStart now (n_event n) of
                 None \<Rightarrow> False
               | Some d \<Rightarrow> 60000 \<le> d \<and> d < 360000 \<and> minutesUntil n = d div 60000)))
   \<and> (eventId \<noteq> [] \<longrightarrow>
        eventId \<notin> notifiedIds
          (notifierRun (before @ Dismiss eventId now' evs' hy # after) initialNotifier))"
proof (intro conjI impI)
  assume "effectDeps stR \<noteq> Some (joinComma (map event_id (todayEvents nowR evsR)),
                                  joinComma (dismissedNotifications stR), True)"
  note first = render_window [OF this]
  show "capturedTodayEvents (notifierStep (Render nowR evsR True) stR) = todayEvents nowR evsR"
    using first [of nR] by blast
  show "checkInterval (notifierStep (Render nowR evsR True) stR)"
    using first [of nR] by blast
  show "nR \<in> set (activeNotifications (notifierStep (Render nowR evsR True) stR)) \<longleftrightarrow>
          n_event nR \<in> set evsR
          \<and> dateStarted (n_event nR) = today nowR
          \<and> event_id (n_event nR) \<notin> set (dismissedNotifications stR)
          \<and> (case msUntilStart nowR (n_event nR) of
                None \<Rightarrow> False
              | Some d \<Rightarrow> 60000 \<le> d \<and> d < 360000 \<and> minutesUntil nR = d div 60000)"
    using first [of nR] by blast
next
  assume a: "checkInterval (notifierRun session initialNotifier)
             \<and> capturedTodayEvents (notifierRun session initialNotifier) = todayEvents now evs
             \<and> event_id (n_event n) \<noteq> []"
  have sync: "effectInSync (notifierRun session initialNotifier)"
    by (intro run_inSync effectInSync_initial)
  from a show "n \<in> set (activeNotifications
                  (notifierStep (Tick now) (notifierRun session initialNotifier))) \<longleftrightarrow>
          n_event n \<in> set evs
          \<and> dateStarted (n_event n) = today now
          \<and> event_id (n_event n)
              \<notin> set (dismissedNotifications (notifierRun session initialNotifier))
          \<and> (case msUntilStart now (n_event n) of
                None \<Rightarrow> False
              | Some d \<Rightarrow> 60000 \<le> d \<and> d < 360000 \<and> minutesUntil n = d div 60000)"
    by (intro tick_window sync) simp_all
next
  assume "eventId \<noteq> []"
  then show "eventId \<notin> notifiedIds
               (notifierRun (before @ Dismiss eventId now' evs' hy # after) initialNotifier)"
    by (rule dismissed_after_session)
qed

theorem notification_window_witness:
  "\<lparr>n_event = reviewAt9, minutesUntil = 3\<rparr>
     \<in> set (activeNotifications
              (notifierStep (Render (clockAt ''08:57'' 32220000) [reviewAt9] True)
                 initialNotifier))
   \<and> \<lparr>n_event = reviewAt9, minutesUntil = 3\<rparr>
     \<in> set (activeNotifications
              (notifierStep (Tick (clockAt ''08:57'' 32220000))
                 (notifierRun [Render (clockAt ''08:50'' 31800000) [reviewAt9] True]
                    initialNotifier)))
   \<and> ''1'' \<notin> notifiedIds
        (notifierRun ([Render (clockAt ''08:57'' 32220000) [reviewAt9] True]
                       @ Dismiss ''1'' (clockAt ''08:57'' 32225000) [reviewAt9] True
                       # [Tick (clockAt ''08:57'' 32230000)])
           initialNotifier)"
proof -
  let ?mounted = "notifierRun [Render (clockAt ''08:50'' 31800000) [reviewAt9] True] initialNotifier"
  let ?n = "\<lparr>n_event = reviewAt9, minutesUntil = 3\<rparr>"
  have fresh: "effectDeps (initialNotifier :: ScheduleEvent notifier)
                 \<noteq> Some (joinComma (map event_id
                                      (todayEvents (clockAt ''08:57'' 32220000) [reviewAt9])),
                          joinComma (dismissedNotifications
                                       (initialNotifier :: ScheduleEvent notifier)),
                          True)"
    by (simp add: initialNotifier_def)
  have interval: "checkInterval ?mounted"
    by code_simp
  have current: "capturedTodayEvents ?mounted
                   = todayEvents (clockAt ''08:57'' 32220000) [reviewAt9]"
    by code_simp
  have dismissed: "dismissedNotifications ?mounted = []"
    by code_simp
  have none: "dismissedNotifications (initialNotifier :: ScheduleEvent notifier) = []"
    by (simp add: initialNotifier_def)
  have ahead: "msUntilStart (clockAt ''08:57'' 32220000) reviewAt9 = Some 180000"
    by code_simp
  have day: "dateStarted reviewAt9 = today (clockAt ''08:57'' 32220000)"
    by (simp add: reviewAt9_def clockAt_def)
  have named: "event_id reviewAt9 \<noteq> []"
    by (simp add: reviewAt9_def)
  note inst = notification_window
      [where stR = initialNotifier and nowR = "clockAt ''08:57'' 32220000"
         and evsR = "[reviewAt9]" and nR = ?n
         and session = "[Render (clockAt ''08:50'' 31800000) [reviewAt9] True]"
         and now = "clockAt ''08:57'' 32220000" and evs = "[reviewAt9]" and n = ?n
         and eventId = "''1''"
         and before = "[Render (clockAt ''08:57'' 32220000) [reviewAt9] True]"
         and now' = "clockAt ''08:57'' 32225000" and evs' = "[reviewAt9]" and hy = True
         and after = "[Tick (clockAt ''08:57'' 32230000)]"]
  have render: "?n \<in> set (activeNotifications
                  (notifierStep (Render (clockAt ''08:57'' 32220000) [reviewAt9] True)
                     initialNotifier))"
    using inst fresh none ahead day
    by (simp del: notifierRun.simps notifierStep.simps)
  have tick: "?n \<in> set (activeNotifications
                (notifierStep (Tick (clockAt ''08:57'' 32220000)) ?mounted))"
    using inst interval current dismissed ahead day named
    by (simp del: notifierRun.simps notifierStep.simps)
  have gone: "''1'' \<notin> notifiedIds
        (notifierRun ([Render (clockAt ''08:57'' 32220000) [reviewAt9] True]
                       @ Dismiss ''1'' (clockAt ''08:57'' 32225000) [reviewAt9] True
                       # [Tick (clockAt ''08:57'' 32230000)])
           initialNotifier)"
    using inst by (simp del: notifierRun.simps notifierStep.simps)
  from render tick gone show ?thesis by blast
qed


subsection \<open>Synchronisation\<close>





subsection \<open>The add-event form\<close>

text \<open>In \<open>v1/\<close> a submission whose end time is not after its start time is refused.\<close>

lemma handleSubmit_v1_rejects:
  assumes "\<not> m_isSubmitting f" and "trim (m_title f) \<noteq> []"
    and "\<not> m_isAllDay f" and "m_timeEnd f \<le> m_timeStart f"
  shows "handleSubmit_v1 newId stamp todayStr (f, s)
           = (f\<lparr>m_error := ''End time must be after start time'', m_isSubmitting := False\<rparr>, s)"
  using assms by (simp add: handleSubmit_v1_def)

lemma trim_Review: "trim ''Review'' = ''Review''"
  by code_simp

text \<open>
  Claim C7 holds of the form of \<open>v1/\<close> and fails on the form of the root variant, whose
  \<open>handleSubmit\<close> only tests that the four fields are filled in. Submitted with start
  09:00 and end 08:00, the root form adds the event to the store and closes; the form of
  \<open>v1/\<close>, on the same entries, sets the message and leaves the store as it is.
\<close>

theorem add_event_without_time_check:
  "handleSubmit ''1704186000000'' (lateForm, localStore)
     = (lateForm\<lparr>a_title := [], a_details := [], a_open := False\<rparr>,
        localStore\<lparr>events :=
          [\<lparr>event_id = ''1704186000000'', title = ''Review'', dateStarted = ''2024-01-02'',
            timeStart = ''09:00'', timeEnd = ''08:00'', details = Some [],
            dateEnd = ''2024-01-02''\<rparr>]\<rparr>)
   \<and> handleSubmit_v1 ''1704186000000-k3x9'' ''2024-01-02T08:00:00.000Z'' ''2024-01-02''
        (lateForm_v1, localStore_v1)
     = (lateForm_v1\<lparr>m_error := ''End time must be after start time''\<rparr>, localStore_v1)"
proof -
  have root: "handleSubmit ''1704186000000'' (lateForm, localStore)
     = (lateForm\<lparr>a_title := [], a_details := [], a_open := False\<rparr>,
        localStore\<lparr>events :=
          [\<lparr>event_id = ''1704186000000'', title = ''Review'', dateStarted = ''2024-01-02'',
            timeStart = ''09:00'', timeEnd = ''08:00'', details = Some [],
            dateEnd = ''2024-01-02''\<rparr>]\<rparr>)"
    by (simp add: handleSubmit_def addEvent_def saveToServer_def lateForm_def localStore_def)
  have v1: "handleSubmit_v1 ''1704186000000-k3x9'' ''2024-01-02T08:00:00.000Z'' ''2024-01-02''
        (lateForm_v1, localStore_v1)
     = (lateForm_v1\<lparr>m_error := ''End time must be after start time''\<rparr>, localStore_v1)"
    by (simp add: handleSubmit_v1_def lateForm_v1_def trim_Review)
  from root v1 show ?thesis by simp
qed

subsection \<open>Project counters\<close>

lemma incrementProject_numbers:
  "map number (projects_v1 (incrementProject pid s))
     = map (\<lambda>p. if project_id p = pid then number p + 1 else number p) (projects_v1 s)"
  by (simp add: incrementProject_def saveToServer_v1_def)

lemma decrementProject_numbers:
  "countersNonNegative_v1 s \<Longrightarrow>
   map number (projects_v1 (decrementProject pid s))
     = map (\<lambda>p. if project_id p = pid then (if number p = 0 then 0 else number p - 1)
                 else number p) (projects_v1 s)"
  by (auto simp: decrementProject_def saveToServer_v1_def countersNonNegative_v1_def)

lemma projectAction_v1_invariant:
  "countersNonNegative_v1 s \<Longrightarrow> countersNonNegative_v1 (projectAction_v1 parseInt a s)"
  by (cases a)
     (auto simp: countersNonNegative_v1_def incrementProject_def decrementProject_def
        deleteProject_v1_def addProject_v1_def updateProject_v1_def saveToServer_v1_def
        addProjectSubmit_v1_def editProjectSubmit_v1_def orElse_def Let_def
        split: option.splits if_splits)

lemma projectActions_v1_invariant:
  "countersNonNegative_v1 s \<Longrightarrow> countersNonNegative_v1 (projectActions_v1 parseInt as s)"
  by (induction as arbitrary: s) (simp_all add: projectAction_v1_invariant)

lemma incrementProjectCount_counts:
  "map count (projects (incrementProjectCount pid s))
     = map (\<lambda>p. if project_id p = pid then count p + 1 else count p) (projects s)"
  by (simp add: incrementProjectCount_def saveToServer_def)

lemma decrementProjectCount_counts:
  "countersNonNegative (s, e) \<Longrightarrow>
   map count (projects (decrementProjectCount pid s))
     = map (\<lambda>p. if project_id p = pid then (if count p = 0 then 0 else count p - 1)
                 else count p) (projects s)"
  by (auto simp: decrementProjectCount_def saveToServer_def countersNonNegative_def)

lemma projectAction_invariant:
  "countersNonNegative page \<Longrightarrow> countersNonNegative (projectAction a page)"
  by (cases page; cases a)
     (auto simp: countersNonNegative_def incrementProjectCount_def decrementProjectCount_def
        deleteProject_def addProject_def updateProject_def saveToServer_def
        addProjectSubmit_def editProjectSubmit_def
        split: option.splits if_splits)

lemma projectActions_invariant:
  "countersNonNegative page \<Longrightarrow> countersNonNegative (projectActions as page)"
  by (induction as arbitrary: page) (simp_all add: projectAction_invariant)

text \<open>
  Claim C8. Counters are integers. In both variants, increment adds exactly 1 to the
  counter of the project with the given id, and decrement leaves a counter of 0 at 0 and
  takes exactly 1 from a positive one; other projects keep their counters. If every
  counter is at least 0, it still is after any sequence of the actions the project list
  offers: submitting the add form or the edit form, deleting, incrementing, decrementing.
\<close>

theorem project_counters:
  assumes "countersNonNegative_v1 s" and "countersNonNegative (r, e)"
  shows "map number (projects_v1 (incrementProject pid s))
           = map (\<lambda>p. if project_id p = pid then number p + 1 else number p) (projects_v1 s)
         \<and> map number (projects_v1 (decrementProject pid s))
           = map (\<lambda>p. if project_id p = pid then (if number p = 0 then 0 else number p - 1)
                       else number p) (projects_v1 s)
         \<and> countersNonNegative_v1 (projectActions_v1 parseInt as s)
         \<and> map count (projects (incrementProjectCount pid r))
           = map (\<lambda>p. if project_id p = pid then count p + 1 else count p) (projects r)
         \<and> map count (projects (decrementProjectCount pid r))
           = map (\<lambda>p. if project_id p = pid then (if count p = 0 then 0 else count p - 1)
                       else count p) (projects r)
         \<and> countersNonNegative (projectActions bs (r, e))"
  using assms
  by (simp add: incrementProject_numbers decrementProject_numbers projectActions_v1_invariant
      incrementProjectCount_counts decrementProjectCount_counts [of r e] projectActions_invariant)

theorem project_counters_witness:
  "map number (projects_v1 (incrementProject ''p1'' localStore_v1)) = [1, 2]
   \<and> map number (projects_v1 (decrementProject ''p1'' localStore_v1)) = [0, 2]
   \<and> map number (projects_v1 (decrementProject ''p2'' localStore_v1)) = [0, 1]
   \<and> map count (projects (incrementProjectCount ''p1'' localStore)) = [1, 2]
   \<and> map count (projects (decrementProjectCount ''p1'' localStore)) = [0, 2]
   \<and> map count (projects (decrementProjectCount ''p2'' localStore)) = [0, 1]
   \<and> countersNonNegative_v1 (projectActions_v1 (\<lambda>x. None) [Decrement_v1 ''p1'', Delete_v1 ''p2''] localStore_v1)
   \<and> countersNonNegative (projectActions [Decrement ''p1'', EditClicked 1] (localStore, None))"
proof -
  have a: "countersNonNegative_v1 localStore_v1"
    by (simp add: countersNonNegative_v1_def localStore_v1_def website_v1_def mobile_v1_def)
  have b: "countersNonNegative (localStore, None)"
    by (simp add: countersNonNegative_def localStore_def website_def mobile_def)
  show ?thesis
    using project_counters [OF a b, of "''p1''" "\<lambda>x. None" "[Decrement_v1 ''p1'', Delete_v1 ''p2'']"
            "[Decrement ''p1'', EditClicked 1]"]
          project_counters [OF a b, of "''p2''" "\<lambda>x. None" "[]" "[]"]
    by (simp add: localStore_v1_def website_v1_def mobile_v1_def localStore_def website_def mobile_def)
qed


end
